theory Spec2Isabelle
  imports Complex_Main
begin

section \<open>JavaScript values used by the client\<close>

text \<open>
  The client handles data that comes out of \<^verbatim>\<open>JSON.parse\<close> and \<^verbatim>\<open>response.json()\<close>:
  null, booleans, numbers, strings, arrays and objects. Numbers are modelled as integers
  (every number the controllers read or write is a count, an identifier or a limit).
  An object is the list of its own properties in insertion order. A value that may also
  be \<^verbatim>\<open>undefined\<close> has type \<open>jsval\<close>, with \<open>None\<close> for \<^verbatim>\<open>undefined\<close>.
\<close>

datatype json =
    JNull
  | JBool bool
  | JNum int
  | JStr string
  | JArr "json list"
  | JObj "(string \<times> json) list"

type_synonym jsval = "json option"

text \<open>
  A JavaScript string as \<^verbatim>\<open>JSON.parse\<close> sees it: either the JSON text of a value
  (\<open>Json v\<close>, what \<^verbatim>\<open>JSON.stringify(v)\<close> returns and any other spelling of the same value),
  or a string that is not JSON text (\<open>Raw s\<close>, with the characters \<open>s\<close>), such as the
  empty string or \<^verbatim>\<open>undefined\<close>.
\<close>

datatype jstext = Json json | Raw string

datatype error = Error string | TypeError | SyntaxError

definition JSON_parse :: "jstext \<Rightarrow> error + json" where
  "JSON_parse t = (case t of Json v \<Rightarrow> Inr v | Raw s \<Rightarrow> Inl SyntaxError)"

definition JSON_stringify :: "json \<Rightarrow> jstext" where
  "JSON_stringify v = Json v"

text \<open>Truthiness (\<^verbatim>\<open>if (v)\<close>, \<^verbatim>\<open>!v\<close>, \<^verbatim>\<open>a || b\<close>).\<close>

fun truthy :: "jsval \<Rightarrow> bool" where
  "truthy None = False"
| "truthy (Some JNull) = False"
| "truthy (Some (JBool b)) = b"
| "truthy (Some (JNum n)) = (n \<noteq> 0)"
| "truthy (Some (JStr s)) = (s \<noteq> [])"
| "truthy (Some (JArr xs)) = True"
| "truthy (Some (JObj kvs)) = True"

text \<open>
  Reading a property \<^verbatim>\<open>v.k\<close>: a TypeError on null, the own property of an object,
  \<^verbatim>\<open>undefined\<close> when there is none. (Every name the client reads this way is a data
  field of a response body.)
\<close>

fun get_prop :: "json \<Rightarrow> string \<Rightarrow> error + jsval" where
  "get_prop JNull k = Inl TypeError"
| "get_prop (JObj kvs) k = Inr (map_of kvs k)"
| "get_prop v k = Inr None"

text \<open>Decimal digits of a natural number, as number-to-string conversion prints them.\<close>

definition digit :: "nat \<Rightarrow> char" where
  "digit d = ''0123456789'' ! d"

function decimal :: "nat \<Rightarrow> string" where
  "decimal n = (if n < 10 then [digit n] else decimal (n div 10) @ [digit (n mod 10)])"
  by pat_completeness auto
termination
  by (relation "measure (\<lambda>n. n)") auto

declare decimal.simps [simp del]

definition show_int :: "int \<Rightarrow> string" where
  "show_int i = (if i < 0 then CHR ''-'' # decimal (nat (- i)) else decimal (nat i))"

fun join :: "string \<Rightarrow> string list \<Rightarrow> string" where
  "join sep [] = []"
| "join sep [x] = x"
| "join sep (x # y # ys) = x @ sep @ join sep (y # ys)"

text \<open>
  String conversion (\<^verbatim>\<open>String(v)\<close>, template literals, \<^verbatim>\<open>new Error(v)\<close>,
  \<^verbatim>\<open>localStorage.setItem(k, v)\<close>): an array joins its elements with commas, printing
  null as the empty string; an object prints as \<^verbatim>\<open>[object Object]\<close>.
\<close>

fun ToString :: "json \<Rightarrow> string" where
  "ToString JNull = ''null''"
| "ToString (JBool b) = (if b then ''true'' else ''false'')"
| "ToString (JNum n) = show_int n"
| "ToString (JStr s) = s"
| "ToString (JArr xs) = join '','' (map (\<lambda>x. if x = JNull then [] else ToString x) xs)"
| "ToString (JObj kvs) = ''[object Object]''"

definition ToString_val :: "jsval \<Rightarrow> string" where
  "ToString_val v = (case v of None \<Rightarrow> ''undefined'' | Some j \<Rightarrow> ToString j)"

text \<open>\<^verbatim>\<open>a || d\<close> where \<open>d\<close> is a literal: the left operand when it is truthy.\<close>

definition or_else :: "jsval \<Rightarrow> json \<Rightarrow> json" where
  "or_else a d = (case a of None \<Rightarrow> d | Some j \<Rightarrow> if truthy (Some j) then j else d)"

text \<open>Assignment to a property of an object, and the spread \<^verbatim>\<open>{...base, ...extra}\<close>.\<close>

fun assign :: "(string \<times> 'v) list \<Rightarrow> string \<Rightarrow> 'v \<Rightarrow> (string \<times> 'v) list" where
  "assign [] k v = [(k, v)]"
| "assign ((k', v') # kvs) k v = (if k' = k then (k, v) # kvs else (k', v') # assign kvs k v)"

definition spread :: "(string \<times> 'v) list \<Rightarrow> (string \<times> 'v) list \<Rightarrow> (string \<times> 'v) list" where
  "spread base extra = fold (\<lambda>(k, v) acc. assign acc k v) extra base"

section \<open>Transport and observable effects\<close>

record http_request =
  req_url :: string
  req_method :: "string option"
  req_headers :: "(string \<times> string) list"
  req_body :: "jstext option"

record http_response =
  resp_ok :: bool
  resp_statusText :: string
  resp_body :: jstext

text \<open>
  \<^verbatim>\<open>fetch\<close> either rejects (a network failure) or resolves with a response of any
  status. The transport is the environment of the client: a function from the request
  issued to what comes back.
\<close>

datatype fetch_result = Rejected error | Response http_response

type_synonym transport = "http_request \<Rightarrow> fetch_result"

datatype task = LoadDashboard | LoadWorkflows | LoadCredentials | LoadExecutions | LoadTemplates

text \<open>
  A toast shows either a fixed text or a prefix followed by \<^verbatim>\<open>error.message\<close>
  (the message of a TypeError or SyntaxError is the engine's own).
\<close>

datatype toast_text = Plain string | WithMessage string error

text \<open>
  What an operation does besides changing its controller's state, in program order:
  requests handed to \<^verbatim>\<open>fetch\<close>, console errors, toasts, the confirmation dialog,
  writes to the page, and calls of other asynchronous operations that are started and
  not awaited (\<open>Start\<close>; \<open>StartAfter\<close> for \<^verbatim>\<open>setTimeout\<close>). Rendering a list is
  recorded by the id of its container; what it draws is not modelled.
\<close>

datatype effect =
    Fetch http_request
  | ConsoleError string error
  | Toast toast_text string
  | Confirm string
  | SetText string string
  | Render string
  | HideStepModal
  | ActivateView string
  | Start task
  | StartAfter nat task

type_synonym 'a io = "effect list \<times> (error + 'a)"

section \<open>API client\<close>

record APIClient =
  baseURL :: string
  token :: json
  user :: jsval

record options =
  opt_method :: "string option"
  opt_body :: "jstext option"
  opt_headers :: "(string \<times> string) list"

definition no_options :: options where
  "no_options = \<lparr>opt_method = None, opt_body = None, opt_headers = []\<rparr>"

definition with_method :: "string \<Rightarrow> options" where
  "with_method m = \<lparr>opt_method = Some m, opt_body = None, opt_headers = []\<rparr>"

definition with_body :: "string \<Rightarrow> json \<Rightarrow> options" where
  "with_body m b = \<lparr>opt_method = Some m, opt_body = Some (JSON_stringify b), opt_headers = []\<rparr>"

text \<open>
  The error raised for a response that is not ok: the body is parsed, and replaced by
  \<^verbatim>\<open>{detail: response.statusText}\<close> when it does not parse; then
  \<^verbatim>\<open>new Error(error.detail || error.message || 'Request failed')\<close>.
\<close>

definition error_envelope :: "http_response \<Rightarrow> json" where
  "error_envelope r =
    (case JSON_parse (resp_body r) of
       Inl e \<Rightarrow> JObj [(''detail'', JStr (resp_statusText r))]
     | Inr v \<Rightarrow> v)"

definition failure_of :: "json \<Rightarrow> error" where
  "failure_of envelope =
    (case get_prop envelope ''detail'' of
       Inl e \<Rightarrow> e
     | Inr d \<Rightarrow>
         if truthy d then Error (ToString_val d)
         else (case get_prop envelope ''message'' of
                 Inl e \<Rightarrow> e
               | Inr m \<Rightarrow>
                   if truthy m then Error (ToString_val m) else Error ''Request failed''))"

definition build_request :: "APIClient \<Rightarrow> string \<Rightarrow> options \<Rightarrow> http_request" where
  "build_request api endpoint opts =
    (let url = baseURL api @ endpoint;
         headers = spread [(''Content-Type'', ''application/json'')] (opt_headers opts);
         headers = (if truthy (Some (token api))
                    then assign headers ''X-API-Key'' (ToString (token api)) else headers)
     in \<lparr>req_url = url, req_method = opt_method opts, req_headers = headers,
         req_body = opt_body opts\<rparr>)"

definition request :: "transport \<Rightarrow> APIClient \<Rightarrow> string \<Rightarrow> options \<Rightarrow> json io" where
  "request fetch api endpoint opts =
    (let req = build_request api endpoint opts;
         outcome =
           (case fetch req of
              Rejected e \<Rightarrow> Inl e
            | Response r \<Rightarrow>
                if \<not> resp_ok r then Inl (failure_of (error_envelope r))
                else JSON_parse (resp_body r))
     in case outcome of
          Inl e \<Rightarrow> ([Fetch req, ConsoleError ''API Request failed:'' e], Inl e)
        | Inr v \<Rightarrow> ([Fetch req], Inr v))"

text \<open>
  The endpoints. Identifiers are spliced into the path by a template literal.
  \<^verbatim>\<open>APIClient.deleteWorkflow\<close> and \<^verbatim>\<open>APIClient.deleteCredential\<close> are
  \<open>api_deleteWorkflow\<close> and \<open>api_deleteCredential\<close> here, apart from the operations of
  \<^verbatim>\<open>App\<close> with the same names.
\<close>

definition getWorkflows :: "transport \<Rightarrow> APIClient \<Rightarrow> json io" where
  "getWorkflows fetch api = request fetch api ''/workflows'' no_options"

definition createWorkflow :: "transport \<Rightarrow> APIClient \<Rightarrow> json \<Rightarrow> json io" where
  "createWorkflow fetch api workflow =
     request fetch api ''/workflows'' (with_body ''POST'' workflow)"

definition updateWorkflow :: "transport \<Rightarrow> APIClient \<Rightarrow> jsval \<Rightarrow> json \<Rightarrow> json io" where
  "updateWorkflow fetch api ident workflow =
     request fetch api (''/workflows/'' @ ToString_val ident) (with_body ''PUT'' workflow)"

definition api_deleteWorkflow :: "transport \<Rightarrow> APIClient \<Rightarrow> jsval \<Rightarrow> json io" where
  "api_deleteWorkflow fetch api ident =
     request fetch api (''/workflows/'' @ ToString_val ident) (with_method ''DELETE'')"

definition executeWorkflow :: "transport \<Rightarrow> APIClient \<Rightarrow> jsval \<Rightarrow> json io" where
  "executeWorkflow fetch api ident =
     request fetch api (''/workflows/'' @ ToString_val ident @ ''/execute'')
       (with_body ''POST'' (JObj [(''trigger_data'', JObj [])]))"

text \<open>
  \<^verbatim>\<open>getCredentials\<close>, \<^verbatim>\<open>getServices\<close>, \<^verbatim>\<open>getTemplates\<close> and \<^verbatim>\<open>getRuns\<close> take optional
  filters; every caller in the repository leaves them at their default null, so the
  query string is empty, or just the limit for \<^verbatim>\<open>getRuns\<close>.
\<close>

definition getCredentials :: "transport \<Rightarrow> APIClient \<Rightarrow> json io" where
  "getCredentials fetch api = request fetch api ''/credentials'' no_options"

definition api_deleteCredential :: "transport \<Rightarrow> APIClient \<Rightarrow> jsval \<Rightarrow> json io" where
  "api_deleteCredential fetch api ident =
     request fetch api (''/credentials/'' @ ToString_val ident) (with_method ''DELETE'')"

definition getServices :: "transport \<Rightarrow> APIClient \<Rightarrow> json io" where
  "getServices fetch api = request fetch api ''/services'' no_options"

definition getConnectors :: "transport \<Rightarrow> APIClient \<Rightarrow> json io" where
  "getConnectors fetch api = request fetch api ''/api/connectors'' no_options"

definition getTemplates :: "transport \<Rightarrow> APIClient \<Rightarrow> json io" where
  "getTemplates fetch api = request fetch api ''/templates'' no_options"

definition getRuns :: "transport \<Rightarrow> APIClient \<Rightarrow> nat \<Rightarrow> json io" where
  "getRuns fetch api limit = request fetch api (''/runs?limit='' @ decimal limit) no_options"

section \<open>Session: credential and profile, in memory and in durable storage\<close>

text \<open>
  \<^verbatim>\<open>localStorage\<close> holds two entries, each absent or a string: the credential under
  \<^verbatim>\<open>auth_token\<close>, read back as it is, and the profile under \<^verbatim>\<open>user\<close>, read back
  through \<^verbatim>\<open>JSON.parse\<close>.
\<close>

record localStorage =
  ls_auth_token :: "string option"
  ls_user :: "jstext option"

text \<open>
  The constructor: \<^verbatim>\<open>getItem\<close> gives null for an absent entry;
  \<^verbatim>\<open>getItem('user') || 'null'\<close> replaces an absent or empty entry by the text
  \<^verbatim>\<open>null\<close>. A SyntaxError of \<^verbatim>\<open>JSON.parse\<close> is not caught.
\<close>

definition APIClient_constructor :: "string \<Rightarrow> localStorage \<Rightarrow> error + APIClient" where
  "APIClient_constructor origin ls =
    (let tok = (case ls_auth_token ls of None \<Rightarrow> JNull | Some s \<Rightarrow> JStr s);
         stored = (case ls_user ls of
                     None \<Rightarrow> Json JNull
                   | Some t \<Rightarrow> if t = Raw [] then Json JNull else t)
     in case JSON_parse stored of
          Inl e \<Rightarrow> Inl e
        | Inr u \<Rightarrow> Inr \<lparr>baseURL = origin, token = tok, user = Some u\<rparr>)"

text \<open>
  \<^verbatim>\<open>setAuth\<close>: \<^verbatim>\<open>setItem\<close> stores the string conversion of its argument;
  \<^verbatim>\<open>JSON.stringify(undefined)\<close> is \<^verbatim>\<open>undefined\<close>, stored as the nine characters
  \<^verbatim>\<open>undefined\<close>.
\<close>

definition setAuth :: "json \<Rightarrow> jsval \<Rightarrow> APIClient \<times> localStorage \<Rightarrow> APIClient \<times> localStorage" where
  "setAuth tok usr s =
    (case s of (api, ls) \<Rightarrow>
      (api\<lparr>token := tok, user := usr\<rparr>,
       ls\<lparr>ls_auth_token := Some (ToString tok),
          ls_user := Some (case usr of None \<Rightarrow> Raw ''undefined'' | Some u \<Rightarrow> JSON_stringify u)\<rparr>))"

definition logout :: "APIClient \<times> localStorage \<Rightarrow> APIClient \<times> localStorage" where
  "logout s =
    (case s of (api, ls) \<Rightarrow>
      (api\<lparr>token := JNull, user := Some JNull\<rparr>, ls\<lparr>ls_auth_token := None, ls_user := None\<rparr>))"

definition isAuthenticated :: "APIClient \<Rightarrow> bool" where
  "isAuthenticated api = truthy (Some (token api))"

text \<open>
  What \<^verbatim>\<open>login\<close> and \<^verbatim>\<open>signup\<close> do with the body of a successful response:
  \<^verbatim>\<open>if (data.api_key) this.setAuth(data.api_key, data.user); return data\<close>.
\<close>

definition store_credentials ::
  "json io \<Rightarrow> APIClient \<times> localStorage \<Rightarrow> json io \<times> (APIClient \<times> localStorage)" where
  "store_credentials r s =
    (case r of
       (es, Inl e) \<Rightarrow> ((es, Inl e), s)
     | (es, Inr data) \<Rightarrow>
         (case get_prop data ''api_key'' of
            Inl e \<Rightarrow> ((es, Inl e), s)
          | Inr k \<Rightarrow>
              (case k of
                 None \<Rightarrow> ((es, Inr data), s)
               | Some key \<Rightarrow>
                   if truthy (Some key) then
                     (case get_prop data ''user'' of
                        Inl e \<Rightarrow> ((es, Inl e), s)
                      | Inr u \<Rightarrow> ((es, Inr data), setAuth key u s))
                   else ((es, Inr data), s))))"

definition login ::
  "transport \<Rightarrow> string \<Rightarrow> string \<Rightarrow> APIClient \<times> localStorage
     \<Rightarrow> json io \<times> (APIClient \<times> localStorage)" where
  "login fetch email password s =
    store_credentials
      (request fetch (fst s) ''/auth/login''
        (with_body ''POST'' (JObj [(''email'', JStr email), (''password'', JStr password)]))) s"

definition signup ::
  "transport \<Rightarrow> string \<Rightarrow> string \<Rightarrow> json \<Rightarrow> string \<Rightarrow> APIClient \<times> localStorage
     \<Rightarrow> json io \<times> (APIClient \<times> localStorage)" where
  "signup fetch name email organization password s =
    store_credentials
      (request fetch (fst s) ''/auth/signup''
        (with_body ''POST'' (JObj [(''name'', JStr name), (''email'', JStr email),
           (''organization'', organization), (''password'', JStr password)]))) s"

section \<open>Workflow builder\<close>

record step =
  step_id :: string
  step_service :: string
  step_action :: string
  step_config :: json

definition json_of_step :: "step \<Rightarrow> json" where
  "json_of_step s = JObj [(''id'', JStr (step_id s)), (''service'', JStr (step_service s)),
                          (''action'', JStr (step_action s)), (''config'', step_config s)]"

record WorkflowBuilder =
  currentWorkflow :: json
  currentSteps :: "step list"
  availableServices :: json
  availableConnectors :: json

definition WorkflowBuilder_initial :: WorkflowBuilder where
  "WorkflowBuilder_initial = \<lparr>currentWorkflow = JNull, currentSteps = [],
     availableServices = JArr [], availableConnectors = JArr []\<rparr>"

text \<open>
  \<^verbatim>\<open>Promise.all\<close> of two requests: both are issued; the join fails when one of them
  fails. (When both fail, the join carries the rejection that arrives first; the model
  takes the first in the order of the array.)
\<close>

definition Promise_all2 :: "'a io \<Rightarrow> 'b io \<Rightarrow> ('a \<times> 'b) io" where
  "Promise_all2 p q =
    (case p of (es1, r1) \<Rightarrow> case q of (es2, r2) \<Rightarrow>
      (es1 @ es2,
       case r1 of
         Inl e \<Rightarrow> Inl e
       | Inr a \<Rightarrow> (case r2 of Inl e \<Rightarrow> Inl e | Inr b \<Rightarrow> Inr (a, b))))"

text \<open>
  The catalog part of \<^verbatim>\<open>WorkflowBuilder.init()\<close> (the rest registers event
  listeners).
\<close>

definition init_catalog ::
  "transport \<Rightarrow> APIClient \<Rightarrow> WorkflowBuilder \<Rightarrow> WorkflowBuilder \<times> effect list" where
  "init_catalog fetch api wb =
    (case Promise_all2 (getServices fetch api) (getConnectors fetch api) of
       (es, Inl e) \<Rightarrow> (wb, es @ [ConsoleError ''Failed to load services:'' e])
     | (es, Inr (servicesData, connectorsData)) \<Rightarrow>
         (case get_prop servicesData ''services'' of
            Inl e \<Rightarrow> (wb, es @ [ConsoleError ''Failed to load services:'' e])
          | Inr sv \<Rightarrow>
              (let wb1 = wb\<lparr>availableServices := or_else sv (JArr [])\<rparr>
               in case get_prop connectorsData ''connectors'' of
                    Inl e \<Rightarrow> (wb1, es @ [ConsoleError ''Failed to load services:'' e])
                  | Inr cn \<Rightarrow>
                      (wb1\<lparr>availableConnectors := or_else cn (JArr [])\<rparr>,
                       es @ [Render ''step-service'']))))"

text \<open>
  \<^verbatim>\<open>addStep()\<close> reads the three fields of the step form and the clock
  (\<^verbatim>\<open>Date.now()\<close>, in milliseconds); they are its arguments here.
\<close>

definition addStep ::
  "nat \<Rightarrow> string \<Rightarrow> string \<Rightarrow> jstext \<Rightarrow> WorkflowBuilder \<Rightarrow> WorkflowBuilder \<times> effect list" where
  "addStep now service action configText wb =
    (if service = [] \<or> action = [] then
       (wb, [Toast (Plain ''Please select service and action'') ''error''])
     else
       (case JSON_parse configText of
          Inl e \<Rightarrow> (wb, [Toast (Plain ''Invalid JSON configuration'') ''error''])
        | Inr config \<Rightarrow>
            (wb\<lparr>currentSteps := currentSteps wb @
                  [\<lparr>step_id = ''step_'' @ decimal now, step_service = service,
                    step_action = action, step_config = config\<rparr>]\<rparr>,
             [Render ''workflow-steps'', HideStepModal])))"

definition removeStep :: "string \<Rightarrow> WorkflowBuilder \<Rightarrow> WorkflowBuilder \<times> effect list" where
  "removeStep stepId wb =
    (wb\<lparr>currentSteps := filter (\<lambda>s. step_id s \<noteq> stepId) (currentSteps wb)\<rparr>,
     [Render ''workflow-steps''])"

text \<open>\<^verbatim>\<open>App.showView\<close>: marks the view active and starts the load of its data.\<close>

definition showView :: "string \<Rightarrow> effect list" where
  "showView viewName =
    ActivateView viewName #
    (if viewName = ''dashboard'' then [Start LoadDashboard]
     else if viewName = ''workflows'' then [Start LoadWorkflows]
     else if viewName = ''credentials'' then [Start LoadCredentials]
     else if viewName = ''executions'' then [Start LoadExecutions]
     else if viewName = ''templates'' then [Start LoadTemplates]
     else [])"

text \<open>\<^verbatim>\<open>String.prototype.trim\<close>, on the ASCII white space characters.\<close>

definition is_space :: "char \<Rightarrow> bool" where
  "is_space c = (c \<in> set [CHR '' '', CHR 0x09, CHR 0x0A, CHR 0x0B, CHR 0x0C, CHR 0x0D])"

definition trim :: "string \<Rightarrow> string" where
  "trim s = rev (dropWhile is_space (rev (dropWhile is_space s)))"

record workflow_form =
  form_name :: string
  form_description :: string
  form_trigger :: string
  form_status :: string

text \<open>
  The \<^verbatim>\<open>try\<close> block of \<^verbatim>\<open>saveWorkflow\<close>: the effects up to the first exception,
  and that exception if there is one.
\<close>

definition save_attempt ::
  "transport \<Rightarrow> APIClient \<Rightarrow> bool \<Rightarrow> json \<Rightarrow> WorkflowBuilder \<Rightarrow> effect list \<times> error option" where
  "save_attempt fetch api andRun workflow wb =
    (let saved =
           (if truthy (Some (currentWorkflow wb)) then
              (case get_prop (currentWorkflow wb) ''id'' of
                 Inl e \<Rightarrow> ([], Inl e)
               | Inr ident \<Rightarrow>
                   (case updateWorkflow fetch api ident workflow of
                      (es, Inl e) \<Rightarrow> (es, Inl e)
                    | (es, Inr result) \<Rightarrow>
                        (es @ [Toast (Plain ''Workflow updated successfully'') ''success''],
                         Inr result)))
            else
              (case createWorkflow fetch api workflow of
                 (es, Inl e) \<Rightarrow> (es, Inl e)
               | (es, Inr result) \<Rightarrow>
                   (es @ [Toast (Plain ''Workflow created successfully'') ''success''],
                    Inr result)))
     in case saved of
          (es, Inl e) \<Rightarrow> (es, Some e)
        | (es, Inr result) \<Rightarrow>
            (let ran =
                   (if andRun then
                      (case get_prop result ''workflow'' of
                         Inl e \<Rightarrow> ([], Some e)
                       | Inr w \<Rightarrow>
                           (case w of
                              None \<Rightarrow> ([], None)
                            | Some w1 \<Rightarrow>
                                if truthy (Some w1) then
                                  (case get_prop w1 ''id'' of
                                     Inl e \<Rightarrow> ([], Some e)
                                   | Inr ident \<Rightarrow>
                                       (case executeWorkflow fetch api ident of
                                          (es2, Inl e) \<Rightarrow> (es2, Some e)
                                        | (es2, Inr x) \<Rightarrow>
                                            (es2 @ [Toast (Plain ''Workflow execution started'')
                                                      ''success''], None)))
                                else ([], None)))
                    else ([], None))
             in case ran of
                  (es2, Some e) \<Rightarrow> (es @ es2, Some e)
                | (es2, None) \<Rightarrow>
                    (es @ es2 @ [Start LoadWorkflows] @ showView ''workflows'', None)))"

definition saveWorkflow ::
  "transport \<Rightarrow> APIClient \<Rightarrow> bool \<Rightarrow> workflow_form \<Rightarrow> WorkflowBuilder
     \<Rightarrow> WorkflowBuilder \<times> effect list" where
  "saveWorkflow fetch api andRun form wb =
    (let name = trim (form_name form);
         description = trim (form_description form);
         triggerType = form_trigger form;
         status = form_status form
     in if name = [] then
          (wb, [Toast (Plain ''Please enter a workflow name'') ''error''])
        else if currentSteps wb = [] then
          (wb, [Toast (Plain ''Please add at least one step'') ''error''])
        else
          (let workflow = JObj [(''name'', JStr name), (''description'', JStr description),
                 (''trigger'', JObj [(''type'', JStr triggerType)]),
                 (''steps'', JArr (map json_of_step (currentSteps wb))),
                 (''status'', JStr status)]
           in case save_attempt fetch api andRun workflow wb of
                (es, None) \<Rightarrow> (wb, es)
              | (es, Some e) \<Rightarrow>
                  (wb, es @ [Toast (WithMessage ''Failed to save workflow: '' e) ''error''])))"

section \<open>Number arithmetic of the dashboard\<close>

text \<open>
  \<^verbatim>\<open>Math.round((successfulRuns / this.executions.length) * 100)\<close> is computed on
  IEEE 754 doubles: a double is the rational number it denotes, and division and
  multiplication round the exact result to the nearest double, ties to the even
  significand (53 bits). The quotients and products here lie between \<open>1/n\<close> and 100,
  far from the subnormal and overflow ranges, which are left out.
\<close>

function bitlength :: "int \<Rightarrow> int" where
  "bitlength k = (if k \<le> 0 then 0 else 1 + bitlength (k div 2))"
  by pat_completeness auto
termination
  by (relation "measure nat") auto

declare bitlength.simps [simp del]

definition pow2 :: "int \<Rightarrow> rat" where
  "pow2 k = (if 0 \<le> k then 2 ^ nat k else 1 / 2 ^ nat (- k))"

text \<open>The binary exponent of a positive rational: \<open>pow2 e \<le> x < pow2 (e + 1)\<close>.\<close>

definition ilog2 :: "rat \<Rightarrow> int" where
  "ilog2 x = (let (p, q) = quotient_of x;
                  d = bitlength p - bitlength q
              in if pow2 d \<le> x then d else d - 1)"

definition round_half_even :: "rat \<Rightarrow> int" where
  "round_half_even m =
    (let f = \<lfloor>m\<rfloor>; d = m - of_int f
     in if d < 1 / 2 then f else if 1 / 2 < d then f + 1 else if even f then f else f + 1)"

definition to_double :: "rat \<Rightarrow> rat" where
  "to_double x =
    (if x = 0 then 0
     else if x < 0 then - (let u = pow2 (ilog2 (- x) - 52) in of_int (round_half_even (- x / u)) * u)
     else (let u = pow2 (ilog2 x - 52) in of_int (round_half_even (x / u)) * u))"

definition js_div :: "rat \<Rightarrow> rat \<Rightarrow> rat" where
  "js_div a b = to_double (a / b)"

definition js_mul :: "rat \<Rightarrow> rat \<Rightarrow> rat" where
  "js_mul a b = to_double (a * b)"

text \<open>\<^verbatim>\<open>Math.round\<close>: the nearest integer, a tie going up.\<close>

definition Math_round :: "rat \<Rightarrow> int" where
  "Math_round x = \<lfloor>x + 1 / 2\<rfloor>"

definition successRate :: "nat \<Rightarrow> nat \<Rightarrow> int" where
  "successRate successfulRuns len =
    (if len > 0 then Math_round (js_mul (js_div (of_nat successfulRuns) (of_nat len)) 100)
     else 0)"

section \<open>Dashboard and list controllers\<close>

record App =
  workflows :: json
  credentials :: json
  executions :: json
  templates :: json

definition App_initial :: App where
  "App_initial = \<lparr>workflows = JArr [], credentials = JArr [], executions = JArr [],
                   templates = JArr []\<rparr>"

text \<open>
  \<^verbatim>\<open>xs.filter(x => x.status === s).length\<close>: a TypeError when \<open>xs\<close> is not an array
  (it has no \<^verbatim>\<open>filter\<close> to call) or an element is null.
\<close>

fun count_status :: "json list \<Rightarrow> string \<Rightarrow> error + nat" where
  "count_status [] s = Inr 0"
| "count_status (x # xs) s =
    (case get_prop x ''status'' of
       Inl e \<Rightarrow> Inl e
     | Inr v \<Rightarrow>
         (case count_status xs s of
            Inl e \<Rightarrow> Inl e
          | Inr n \<Rightarrow> Inr (if v = Some (JStr s) then Suc n else n)))"

fun filter_status_length :: "json \<Rightarrow> string \<Rightarrow> error + nat" where
  "filter_status_length (JArr xs) s = count_status xs s"
| "filter_status_length v s = Inl TypeError"

fun array_length :: "json \<Rightarrow> nat" where
  "array_length (JArr xs) = length xs"
| "array_length v = 0"

text \<open>
  The statistics of \<^verbatim>\<open>loadDashboard\<close>, from the two caches just assigned, and the four
  texts written to the page. Both caches are arrays once the two filters have run.
\<close>

definition dashboard_stats :: "json \<Rightarrow> json \<Rightarrow> error + effect list" where
  "dashboard_stats ws ex =
    (case filter_status_length ws ''active'' of
       Inl e \<Rightarrow> Inl e
     | Inr activeWorkflows \<Rightarrow>
         (case filter_status_length ex ''success'' of
            Inl e \<Rightarrow> Inl e
          | Inr successfulRuns \<Rightarrow>
              Inr [SetText ''total-workflows'' (decimal (array_length ws)),
                   SetText ''active-workflows'' (decimal activeWorkflows),
                   SetText ''total-executions'' (decimal (array_length ex)),
                   SetText ''success-rate''
                     (show_int (successRate successfulRuns (array_length ex)) @ ''%'')]))"

definition dashboard_failed :: "error \<Rightarrow> effect list" where
  "dashboard_failed e =
    [ConsoleError ''Failed to load dashboard:'' e,
     Toast (Plain ''Failed to load dashboard data'') ''error'']"

definition loadDashboard :: "transport \<Rightarrow> APIClient \<Rightarrow> App \<Rightarrow> App \<times> effect list" where
  "loadDashboard fetch api app =
    (case Promise_all2 (getWorkflows fetch api) (getRuns fetch api 10) of
       (es, Inl e) \<Rightarrow> (app, es @ dashboard_failed e)
     | (es, Inr (workflowsData, runsData)) \<Rightarrow>
         (case get_prop workflowsData ''workflows'' of
            Inl e \<Rightarrow> (app, es @ dashboard_failed e)
          | Inr w \<Rightarrow>
              (let app1 = app\<lparr>workflows := or_else w (JArr [])\<rparr>
               in case get_prop runsData ''runs'' of
                    Inl e \<Rightarrow> (app1, es @ dashboard_failed e)
                  | Inr r \<Rightarrow>
                      (let app2 = app1\<lparr>executions := or_else r (JArr [])\<rparr>
                       in case dashboard_stats (workflows app2) (executions app2) of
                            Inl e \<Rightarrow> (app2, es @ dashboard_failed e)
                          | Inr texts \<Rightarrow>
                              (app2, es @ texts @ [Render ''recent-workflows''])))))"

text \<open>
  The four list loads have one shape:
  \<^verbatim>\<open>try { const data = await api.get(); this.cache = data.key || []; this.render() }
  catch (error) { console.error(label, error); Utils.showToast(text, 'error') }\<close>.
\<close>

definition load_list ::
  "json io \<Rightarrow> string \<Rightarrow> string \<Rightarrow> string \<Rightarrow> string \<Rightarrow> (json \<Rightarrow> App) \<Rightarrow> App \<Rightarrow> App \<times> effect list" where
  "load_list fetched key container label msg commit app =
    (case fetched of
       (es, Inl e) \<Rightarrow> (app, es @ [ConsoleError label e, Toast (Plain msg) ''error''])
     | (es, Inr data) \<Rightarrow>
         (case get_prop data key of
            Inl e \<Rightarrow> (app, es @ [ConsoleError label e, Toast (Plain msg) ''error''])
          | Inr v \<Rightarrow> (commit (or_else v (JArr [])), es @ [Render container])))"

definition loadWorkflows :: "transport \<Rightarrow> APIClient \<Rightarrow> App \<Rightarrow> App \<times> effect list" where
  "loadWorkflows fetch api app =
    load_list (getWorkflows fetch api) ''workflows'' ''workflows-list''
      ''Failed to load workflows:'' ''Failed to load workflows''
      (\<lambda>v. app\<lparr>workflows := v\<rparr>) app"

definition loadCredentials :: "transport \<Rightarrow> APIClient \<Rightarrow> App \<Rightarrow> App \<times> effect list" where
  "loadCredentials fetch api app =
    load_list (getCredentials fetch api) ''credentials'' ''credentials-list''
      ''Failed to load credentials:'' ''Failed to load credentials''
      (\<lambda>v. app\<lparr>credentials := v\<rparr>) app"

definition loadExecutions :: "transport \<Rightarrow> APIClient \<Rightarrow> App \<Rightarrow> App \<times> effect list" where
  "loadExecutions fetch api app =
    load_list (getRuns fetch api 100) ''runs'' ''executions-list''
      ''Failed to load executions:'' ''Failed to load executions''
      (\<lambda>v. app\<lparr>executions := v\<rparr>) app"

definition loadTemplates :: "transport \<Rightarrow> APIClient \<Rightarrow> App \<Rightarrow> App \<times> effect list" where
  "loadTemplates fetch api app =
    load_list (getTemplates fetch api) ''templates'' ''templates-list''
      ''Failed to load templates:'' ''Failed to load templates''
      (\<lambda>v. app\<lparr>templates := v\<rparr>) app"

text \<open>\<^verbatim>\<open>App.runWorkflow\<close>: the refresh of the run list is scheduled one second later.\<close>

definition runWorkflow ::
  "transport \<Rightarrow> APIClient \<Rightarrow> string \<Rightarrow> App \<Rightarrow> App \<times> effect list" where
  "runWorkflow fetch api ident app =
    (case executeWorkflow fetch api (Some (JStr ident)) of
       (es, Inr x) \<Rightarrow>
         (app, es @ [Toast (Plain ''Workflow execution started'') ''success'',
                     StartAfter 1000 LoadExecutions])
     | (es, Inl e) \<Rightarrow>
         (app, es @ [Toast (WithMessage ''Failed to execute workflow: '' e) ''error'']))"

text \<open>
  The two delete operations. The answer to \<^verbatim>\<open>confirm(...)\<close> and the id in the
  button's handler are arguments. The reloads are started and not awaited.
\<close>

definition deleteWorkflow ::
  "bool \<Rightarrow> transport \<Rightarrow> APIClient \<Rightarrow> string \<Rightarrow> App \<Rightarrow> App \<times> effect list" where
  "deleteWorkflow confirmed fetch api ident app =
    (if \<not> confirmed then (app, [Confirm ''Are you sure you want to delete this workflow?''])
     else
       (case api_deleteWorkflow fetch api (Some (JStr ident)) of
          (es, Inr x) \<Rightarrow>
            (app, Confirm ''Are you sure you want to delete this workflow?'' # es @
                  [Toast (Plain ''Workflow deleted successfully'') ''success'',
                   Start LoadWorkflows, Start LoadDashboard])
        | (es, Inl e) \<Rightarrow>
            (app, Confirm ''Are you sure you want to delete this workflow?'' # es @
                  [Toast (WithMessage ''Failed to delete workflow: '' e) ''error''])))"

definition deleteCredential ::
  "bool \<Rightarrow> transport \<Rightarrow> APIClient \<Rightarrow> string \<Rightarrow> App \<Rightarrow> App \<times> effect list" where
  "deleteCredential confirmed fetch api ident app =
    (if \<not> confirmed then (app, [Confirm ''Are you sure you want to delete this credential?''])
     else
       (case api_deleteCredential fetch api (Some (JStr ident)) of
          (es, Inr x) \<Rightarrow>
            (app, Confirm ''Are you sure you want to delete this credential?'' # es @
                  [Toast (Plain ''Credential deleted successfully'') ''success'',
                   Start LoadCredentials])
        | (es, Inl e) \<Rightarrow>
            (app, Confirm ''Are you sure you want to delete this credential?'' # es @
                  [Toast (WithMessage ''Failed to delete credential: '' e) ''error''])))"

text \<open>Running a started load to completion.\<close>

fun run_task :: "task \<Rightarrow> transport \<Rightarrow> APIClient \<Rightarrow> App \<Rightarrow> App \<times> effect list" where
  "run_task LoadDashboard = loadDashboard"
| "run_task LoadWorkflows = loadWorkflows"
| "run_task LoadCredentials = loadCredentials"
| "run_task LoadExecutions = loadExecutions"
| "run_task LoadTemplates = loadTemplates"

text \<open>The test \<^verbatim>\<open>x.status === s\<close> on an element that is not null.\<close>

definition has_status :: "string \<Rightarrow> json \<Rightarrow> bool" where
  "has_status s x = (get_prop x ''status'' = Inr (Some (JStr s)))"

section \<open>Reading an effect list\<close>

fun requests :: "effect list \<Rightarrow> http_request list" where
  "requests [] = []"
| "requests (Fetch r # es) = r # requests es"
| "requests (e # es) = requests es"

fun started :: "effect list \<Rightarrow> task list" where
  "started [] = []"
| "started (Start t # es) = t # started es"
| "started (e # es) = started es"

fun toasts :: "effect list \<Rightarrow> (toast_text \<times> string) list" where
  "toasts [] = []"
| "toasts (Toast t k # es) = (t, k) # toasts es"
| "toasts (e # es) = toasts es"

section \<open>Sample environments\<close>

text \<open>A transport that answers every request with the same response.\<close>

definition always :: "http_response \<Rightarrow> transport" where
  "always r = (\<lambda>req. Response r)"

definition ok_response :: "json \<Rightarrow> http_response" where
  "ok_response v = \<lparr>resp_ok = True, resp_statusText = ''OK'', resp_body = Json v\<rparr>"

definition error_response :: "string \<Rightarrow> jstext \<Rightarrow> http_response" where
  "error_response st b = \<lparr>resp_ok = False, resp_statusText = st, resp_body = b\<rparr>"

definition sample_api :: APIClient where
  "sample_api = \<lparr>baseURL = ''https://flowforge.test'', token = JStr ''tok1'', user = Some JNull\<rparr>"

definition anonymous_api :: APIClient where
  "anonymous_api = \<lparr>baseURL = ''https://flowforge.test'', token = JNull, user = Some JNull\<rparr>"

definition empty_storage :: localStorage where
  "empty_storage = \<lparr>ls_auth_token = None, ls_user = None\<rparr>"

text \<open>
  A server on which creating a workflow succeeds and every other call (here: executing
  it) fails with status 500.
\<close>

definition create_only :: transport where
  "create_only req =
    (if req_url req = ''https://flowforge.test/workflows'' \<and> req_method req = Some ''POST''
     then Response (ok_response (JObj [(''workflow'', JObj [(''id'', JNum 7)])]))
     else Response (error_response ''Internal Server Error''
            (Json (JObj [(''detail'', JStr ''engine unavailable'')]))))"

definition sample_form :: workflow_form where
  "sample_form = \<lparr>form_name = ''Nightly sync'', form_description = [],
                   form_trigger = ''manual'', form_status = ''draft''\<rparr>"

definition sample_step :: step where
  "sample_step = \<lparr>step_id = ''step_1000'', step_service = ''slack'',
                   step_action = ''send_message'', step_config = JObj []\<rparr>"

definition one_step_draft :: WorkflowBuilder where
  "one_step_draft = WorkflowBuilder_initial\<lparr>currentSteps := [sample_step]\<rparr>"

text \<open>Ten runs, seven of them successful, and the server that lists them.\<close>

definition run_with_status :: "string \<Rightarrow> json" where
  "run_with_status st = JObj [(''id'', JStr ''r''), (''status'', JStr st)]"

definition ten_runs :: "json list" where
  "ten_runs = replicate 7 (run_with_status ''success'') @ replicate 3 (run_with_status ''failed'')"

definition dashboard_server :: transport where
  "dashboard_server req =
    (if req_url req = ''https://flowforge.test/workflows''
     then Response (ok_response (JObj [(''workflows'',
            JArr [JObj [(''id'', JStr ''w1''), (''status'', JStr ''active'')]])]))
     else Response (ok_response (JObj [(''runs'', JArr ten_runs)])))"

text \<open>A 422 answer whose envelope carries \<^verbatim>\<open>message\<close> and no \<^verbatim>\<open>detail\<close>.\<close>

definition unprocessable :: http_response where
  "unprocessable = error_response ''Unprocessable Entity''
     (Json (JObj [(''message'', JStr ''name is required'')]))"

text \<open>A network that is down: every \<^verbatim>\<open>fetch\<close> rejects.\<close>

definition offline :: transport where
  "offline req = Rejected TypeError"

text \<open>A server whose run listing fails with status 503 while everything else answers.\<close>

definition runs_down :: transport where
  "runs_down req =
    (if req_url req = ''https://flowforge.test/workflows''
     then Response (ok_response (JObj [(''workflows'',
            JArr [JObj [(''id'', JStr ''w2''), (''status'', JStr ''active'')]])]))
     else Response (error_response ''Service Unavailable'' (Raw ''<html>'')))"

text \<open>A server whose run listing answers 200 with the body \<^verbatim>\<open>null\<close>.\<close>

definition null_runs :: transport where
  "null_runs req =
    (if req_url req = ''https://flowforge.test/workflows''
     then Response (ok_response (JObj [(''workflows'',
            JArr [JObj [(''id'', JStr ''w2''), (''status'', JStr ''active'')]])]))
     else Response (ok_response JNull))"

definition stocked_app :: App where
  "stocked_app = \<lparr>workflows = JArr [JObj [(''id'', JStr ''w1''), (''status'', JStr ''draft'')]],
                   credentials = JArr [JObj [(''id'', JStr ''c1'')]],
                   executions = JArr [run_with_status ''success''],
                   templates = JArr [JObj [(''id'', JStr ''t1'')]]\<rparr>"

definition stocked_builder :: WorkflowBuilder where
  "stocked_builder = one_step_draft\<lparr>availableServices := JArr [JStr ''slack''],
                                     availableConnectors := JArr [JStr ''slack'']\<rparr>"

text \<open>The answer of the authentication endpoints to a valid login.\<close>

definition sample_profile :: json where
  "sample_profile = JObj [(''id'', JNum 1), (''name'', JStr ''A'')]"

definition auth_body :: "(string \<times> json) list" where
  "auth_body = [(''api_key'', JStr ''tok1''), (''user'', sample_profile)]"

definition auth_server :: transport where
  "auth_server = always (ok_response (JObj auth_body))"

section \<open>Facts about the step list\<close>

lemma decimal_nonempty: "decimal n \<noteq> []"
  by (subst decimal.simps) simp

lemma decimal_small: "n < 10 \<Longrightarrow> decimal n = [digit n]"
  by (subst decimal.simps) simp

lemma decimal_large: "\<not> n < 10 \<Longrightarrow> decimal n = decimal (n div 10) @ [digit (n mod 10)]"
  by (subst decimal.simps) simp

lemma decimal_1000: "decimal 1000 = ''1000''"
  by (simp add: decimal_small decimal_large digit_def)

lemma decimal_10: "decimal 10 = ''10''"
  by (simp add: decimal_small decimal_large digit_def)

lemma addStep_accepts:
  assumes "service \<noteq> []" and "action \<noteq> []"
  shows "addStep now service action (Json config) wb =
           (wb\<lparr>currentSteps := currentSteps wb @
                 [\<lparr>step_id = ''step_'' @ decimal now, step_service = service,
                   step_action = action, step_config = config\<rparr>]\<rparr>,
            [Render ''workflow-steps'', HideStepModal])"
  using assms by (simp add: addStep_def JSON_parse_def)

lemma addStep_rejects:
  assumes "service = [] \<or> action = [] \<or> configText = Raw s"
  shows "fst (addStep now service action configText wb) = wb"
  using assms by (auto simp: addStep_def JSON_parse_def)

lemma removeStep_steps:
  "currentSteps (fst (removeStep stepId wb)) = filter (\<lambda>s. step_id s \<noteq> stepId) (currentSteps wb)"
  by (simp add: removeStep_def)

text \<open>
  Adding a step and removing the id just added gives back the earlier list exactly when
  no earlier step carries that id.
\<close>

lemma add_then_remove:
  assumes "service \<noteq> []" and "action \<noteq> []"
  shows "currentSteps (fst (removeStep (''step_'' @ decimal now)
            (fst (addStep now service action (Json config) wb)))) =
         filter (\<lambda>s. step_id s \<noteq> ''step_'' @ decimal now) (currentSteps wb)"
  using assms by (simp add: addStep_accepts removeStep_def)

lemma add_then_remove_fresh:
  assumes "service \<noteq> []" and "action \<noteq> []"
    and "''step_'' @ decimal now \<notin> step_id ` set (currentSteps wb)"
  shows "currentSteps (fst (removeStep (''step_'' @ decimal now)
            (fst (addStep now service action (Json config) wb)))) = currentSteps wb"
proof -
  have kept: "filter (\<lambda>s. step_id s \<noteq> ''step_'' @ decimal now) (currentSteps wb) = currentSteps wb"
    using assms(3) by (intro filter_True) (metis imageI)
  show ?thesis
    by (simp only: add_then_remove [OF assms(1,2)] kept)
qed

lemma addStep_fresh_distinct:
  assumes "service \<noteq> []" and "action \<noteq> []"
    and "distinct (map step_id (currentSteps wb))"
    and "''step_'' @ decimal now \<notin> step_id ` set (currentSteps wb)"
  shows "distinct (map step_id (currentSteps (fst (addStep now service action (Json config) wb))))"
  using assms by (simp add: addStep_accepts)

text \<open>
  The id is an injective function of the clock reading: two steps get the same id
  exactly when they are added at the same reading.
\<close>

lemma digit_inj:
  assumes "a < 10" and "b < 10" and "digit a = digit b"
  shows "a = b"
proof -
  have "a \<in> {0,1,2,3,4,5,6,7,8,9}" "b \<in> {0,1,2,3,4,5,6,7,8,9}"
    using assms(1,2) by auto
  with assms(3) show ?thesis
    by (auto simp: digit_def)
qed

lemma decimal_length_small: "length (decimal n) = 1 \<longleftrightarrow> n < 10"
proof (cases "n < 10")
  case True
  then show ?thesis by (simp add: decimal_small)
next
  case False
  then have "length (decimal n) = Suc (length (decimal (n div 10)))"
    by (simp add: decimal_large)
  moreover have "length (decimal (n div 10)) \<noteq> 0"
    by (simp add: decimal_nonempty)
  ultimately show ?thesis
    using False by simp
qed

lemma decimal_inj: "decimal n = decimal m \<Longrightarrow> n = m"
proof (induction n arbitrary: m rule: decimal.induct)
  case (1 n)
  show ?case
  proof (cases "n < 10")
    case True
    with "1.prems" have "length (decimal m) = 1"
      by (metis decimal_length_small)
    then have "m < 10"
      using decimal_length_small by blast
    with True "1.prems" show ?thesis
      by (simp add: decimal_small digit_inj)
  next
    case False
    with "1.prems" have "length (decimal m) \<noteq> 1"
      by (metis decimal_length_small)
    then have big: "\<not> m < 10"
      using decimal_length_small by blast
    from "1.prems" False big
    have "decimal (n div 10) = decimal (m div 10)" and "digit (n mod 10) = digit (m mod 10)"
      by (simp_all add: decimal_large)
    then have "n div 10 = m div 10" and "n mod 10 = m mod 10"
      using "1.IH" [OF False] by (simp_all add: digit_inj)
    then show ?thesis
      by (metis div_mult_mod_eq)
  qed
qed

lemma step_ids_equal_iff:
  "''step_'' @ decimal n = ''step_'' @ decimal m \<longleftrightarrow> n = m"
  by (auto dest: decimal_inj)

lemma two_adds_distinct_iff:
  assumes "service \<noteq> []" and "action \<noteq> []" and "service' \<noteq> []" and "action' \<noteq> []"
  shows "distinct (map step_id (currentSteps (fst (addStep m service' action' (Json config')
            (fst (addStep n service action (Json config) WorkflowBuilder_initial))))))
         \<longleftrightarrow> n \<noteq> m"
  using assms
  by (auto simp: addStep_accepts WorkflowBuilder_initial_def dest: decimal_inj)

text \<open>C1. Two steps added at the same clock reading get the same id.\<close>

theorem addStep_same_instant_same_id:
  "map step_id (currentSteps (fst (addStep 1000 ''slack'' ''send_message'' (Json (JObj []))
      (fst (addStep 1000 ''slack'' ''send_message'' (Json (JObj [])) WorkflowBuilder_initial)))))
   = [''step_1000'', ''step_1000'']"
  by (simp add: addStep_accepts WorkflowBuilder_initial_def decimal_1000)

text \<open>
  C2. After one step has been added at clock reading 1000, adding a second step at the
  same reading and removing the id just added leaves no step at all: the step that was
  there before the pair is gone too.
\<close>

theorem add_remove_loses_earlier_step:
  "fst (addStep 1000 ''slack'' ''send_message'' (Json (JObj [])) WorkflowBuilder_initial) =
     one_step_draft \<and>
   currentSteps one_step_draft = [sample_step] \<and>
   currentSteps (fst (removeStep ''step_1000''
      (fst (addStep 1000 ''gmail'' ''send_email'' (Json (JObj [])) one_step_draft)))) = []"
  by (simp add: addStep_accepts removeStep_def one_step_draft_def sample_step_def
      WorkflowBuilder_initial_def decimal_1000)

section \<open>Facts about the session\<close>

text \<open>C3. A stored profile that is not JSON text makes the constructor raise.\<close>

theorem constructor_raises_on_malformed_profile:
  "APIClient_constructor ''https://flowforge.test''
     \<lparr>ls_auth_token = Some ''tok1'', ls_user = Some (Raw ''{'')\<rparr> = Inl SyntaxError"
  by (simp add: APIClient_constructor_def JSON_parse_def)

text \<open>The constructor succeeds on every other content of the two entries.\<close>

lemma constructor_restores:
  "APIClient_constructor origin \<lparr>ls_auth_token = Some tok, ls_user = Some (Json profile)\<rparr> =
     Inr \<lparr>baseURL = origin, token = JStr tok, user = Some profile\<rparr>"
  by (simp add: APIClient_constructor_def JSON_parse_def)

lemma constructor_absent_profile:
  assumes "ls_user ls = None \<or> ls_user ls = Some (Raw [])"
  shows "\<exists>tok. APIClient_constructor origin ls =
           Inr \<lparr>baseURL = origin, token = tok, user = Some JNull\<rparr>"
  using assms by (auto simp: APIClient_constructor_def JSON_parse_def)

lemma constructor_raises_iff:
  "(\<exists>e. APIClient_constructor origin ls = Inl e) \<longleftrightarrow>
   (\<exists>s. s \<noteq> [] \<and> ls_user ls = Some (Raw s))"
proof (cases "ls_user ls")
  case None
  then show ?thesis
    by (simp add: APIClient_constructor_def JSON_parse_def)
next
  case (Some t)
  then show ?thesis
    by (cases t) (auto simp: APIClient_constructor_def JSON_parse_def)
qed

lemma request_resolves:
  assumes "fetch (build_request api endpoint opts) = Response r"
    and "resp_ok r" and "resp_body r = Json v"
  shows "request fetch api endpoint opts = ([Fetch (build_request api endpoint opts)], Inr v)"
  using assms by (simp add: request_def JSON_parse_def)

lemma store_credentials_writes:
  assumes "map_of kvs ''api_key'' = Some key" and "truthy (Some key)"
  shows "store_credentials (es, Inr (JObj kvs)) s =
           ((es, Inr (JObj kvs)), setAuth key (map_of kvs ''user'') s)"
  using assms by (simp add: store_credentials_def)

lemma store_credentials_skips:
  assumes "\<not> truthy (map_of kvs ''api_key'')"
  shows "store_credentials (es, Inr (JObj kvs)) s = ((es, Inr (JObj kvs)), s)"
  using assms by (cases "map_of kvs ''api_key''") (simp_all add: store_credentials_def)

lemma store_credentials_failure:
  "store_credentials (es, Inl e) s = ((es, Inl e), s)"
  by (simp add: store_credentials_def)

lemma setAuth_string_token:
  "setAuth (JStr tok) (Some profile) (api, ls) =
     (api\<lparr>token := JStr tok, user := Some profile\<rparr>,
      ls\<lparr>ls_auth_token := Some tok, ls_user := Some (Json profile)\<rparr>)"
  by (simp add: setAuth_def JSON_stringify_def)

text \<open>
  C8. A login or signup answered by a successful response that carries a credential
  (a non-empty string under \<^verbatim>\<open>api_key\<close>) and a profile (under \<^verbatim>\<open>user\<close>) writes both
  into the client and into durable storage: the client is authenticated, and a client
  constructed afresh from that storage holds the same credential and profile.
\<close>

theorem login_signup_persist_session:
  assumes "resp_ok r" and "resp_body r = Json (JObj kvs)"
    and "map_of kvs ''api_key'' = Some (JStr tok)" and "tok \<noteq> []"
    and "map_of kvs ''user'' = Some profile"
  shows "\<forall>s' \<in> {snd (login (always r) email password (api, ls)),
                 snd (signup (always r) name email organization password (api, ls))}.
           token (fst s') = JStr tok \<and> user (fst s') = Some profile \<and>
           ls_auth_token (snd s') = Some tok \<and> ls_user (snd s') = Some (Json profile) \<and>
           isAuthenticated (fst s') \<and>
           APIClient_constructor origin (snd s') =
             Inr \<lparr>baseURL = origin, token = JStr tok, user = Some profile\<rparr>"
proof -
  have answered: "request (always r) api endpoint opts =
      ([Fetch (build_request api endpoint opts)], Inr (JObj kvs))" for endpoint opts
    using assms(1,2) by (intro request_resolves) (simp_all add: always_def)
  have stored: "store_credentials (es, Inr (JObj kvs)) (api, ls) =
      ((es, Inr (JObj kvs)),
       (api\<lparr>token := JStr tok, user := Some profile\<rparr>,
        ls\<lparr>ls_auth_token := Some tok, ls_user := Some (Json profile)\<rparr>))" for es
    using assms(3,4,5) by (simp add: store_credentials_writes setAuth_string_token)
  have after_login: "snd (login (always r) email password (api, ls)) =
      (api\<lparr>token := JStr tok, user := Some profile\<rparr>,
       ls\<lparr>ls_auth_token := Some tok, ls_user := Some (Json profile)\<rparr>)"
    by (simp add: login_def answered stored)
  have after_signup: "snd (signup (always r) name email organization password (api, ls)) =
      (api\<lparr>token := JStr tok, user := Some profile\<rparr>,
       ls\<lparr>ls_auth_token := Some tok, ls_user := Some (Json profile)\<rparr>)"
    by (simp add: signup_def answered stored)
  show ?thesis
    using assms(4)
    by (simp add: after_login after_signup isAuthenticated_def APIClient_constructor_def
        JSON_parse_def)
qed

theorem login_signup_persist_session_witness:
  "resp_ok (ok_response (JObj auth_body)) \<and>
   map_of auth_body ''api_key'' = Some (JStr ''tok1'') \<and>
   map_of auth_body ''user'' = Some sample_profile \<and>
   isAuthenticated (fst (snd (login auth_server ''a@b.com'' ''pw'' (anonymous_api, empty_storage)))) \<and>
   APIClient_constructor ''https://flowforge.test''
       (snd (snd (login auth_server ''a@b.com'' ''pw'' (anonymous_api, empty_storage)))) =
     Inr \<lparr>baseURL = ''https://flowforge.test'', token = JStr ''tok1'', user = Some sample_profile\<rparr>"
proof -
  have ok: "resp_ok (ok_response (JObj auth_body))"
    and body: "resp_body (ok_response (JObj auth_body)) = Json (JObj auth_body)"
    by (simp_all add: ok_response_def)
  have key: "map_of auth_body ''api_key'' = Some (JStr ''tok1'')"
    and profile: "map_of auth_body ''user'' = Some sample_profile"
    by (simp_all add: auth_body_def)
  have nonempty: "''tok1'' \<noteq> []"
    by simp
  show ?thesis
    using login_signup_persist_session [OF ok body key nonempty profile,
        where email = "''a@b.com''" and password = "''pw''" and api = anonymous_api
          and ls = empty_storage and origin = "''https://flowforge.test''"]
    by (simp add: auth_server_def ok key profile)
qed

text \<open>
  The guard \<^verbatim>\<open>if (data.api_key)\<close>: without a credential in the answer nothing is
  written. With a credential and no profile, the profile entry is written as the text
  \<^verbatim>\<open>undefined\<close>, on which the next construction raises.
\<close>

lemma login_without_credential:
  assumes "resp_ok r" and "resp_body r = Json (JObj kvs)" and "\<not> truthy (map_of kvs ''api_key'')"
  shows "snd (login (always r) email password s) = s"
proof -
  have "request (always r) (fst s) endpoint opts =
      ([Fetch (build_request (fst s) endpoint opts)], Inr (JObj kvs))" for endpoint opts
    using assms(1,2) by (intro request_resolves) (simp_all add: always_def)
  then show ?thesis
    using assms(3) by (simp add: login_def store_credentials_skips)
qed

lemma login_without_profile_breaks_reload:
  "APIClient_constructor ''https://flowforge.test''
     (snd (snd (login (always (ok_response (JObj [(''api_key'', JStr ''tok1'')])))
        ''a@b.com'' ''pw'' (anonymous_api, empty_storage)))) = Inl SyntaxError"
  by (simp add: login_def request_def always_def ok_response_def JSON_parse_def
      store_credentials_def setAuth_def APIClient_constructor_def empty_storage_def)

lemma logout_clears:
  "\<not> isAuthenticated (fst (logout s)) \<and>
   ls_auth_token (snd (logout s)) = None \<and> ls_user (snd (logout s)) = None"
  by (cases s) (simp add: logout_def isAuthenticated_def)

section \<open>Facts about the transport gateway\<close>

lemma request_rejected:
  assumes "fetch (build_request api endpoint opts) = Rejected e"
  shows "request fetch api endpoint opts =
           ([Fetch (build_request api endpoint opts), ConsoleError ''API Request failed:'' e], Inl e)"
  using assms by (simp add: request_def)

lemma request_not_ok:
  assumes "fetch (build_request api endpoint opts) = Response r" and "\<not> resp_ok r"
  shows "request fetch api endpoint opts =
           ([Fetch (build_request api endpoint opts),
             ConsoleError ''API Request failed:'' (failure_of (error_envelope r))],
            Inl (failure_of (error_envelope r)))"
  using assms by (simp add: request_def)

lemma request_unparseable:
  assumes "fetch (build_request api endpoint opts) = Response r"
    and "resp_ok r" and "resp_body r = Raw s"
  shows "request fetch api endpoint opts =
           ([Fetch (build_request api endpoint opts),
             ConsoleError ''API Request failed:'' SyntaxError], Inl SyntaxError)"
  using assms by (simp add: request_def JSON_parse_def)

text \<open>Every request hands exactly one request to the transport.\<close>

lemma request_issues_one:
  "requests (fst (request fetch api endpoint opts)) = [build_request api endpoint opts]"
  by (simp add: request_def Let_def split: fetch_result.split sum.split)

text \<open>A request fails exactly when the transport rejects, the status is not a
  success, or the body of a success is not JSON text.\<close>

lemma request_fails_iff:
  "isl (snd (request fetch api endpoint opts)) \<longleftrightarrow>
     (case fetch (build_request api endpoint opts) of
        Rejected e \<Rightarrow> True
      | Response r \<Rightarrow> \<not> resp_ok r \<or> (\<exists>s. resp_body r = Raw s))"
  by (auto simp: request_def Let_def JSON_parse_def split: fetch_result.split jstext.split)

lemma failure_of_object:
  "failure_of (JObj kvs) =
     (if truthy (map_of kvs ''detail'') then Error (ToString_val (map_of kvs ''detail''))
      else if truthy (map_of kvs ''message'') then Error (ToString_val (map_of kvs ''message''))
      else Error ''Request failed'')"
  by (simp add: failure_of_def)

lemma failure_of_status_text:
  "failure_of (JObj [(''detail'', JStr st)]) =
     (if st \<noteq> [] then Error st else Error ''Request failed'')"
  by (simp add: failure_of_def ToString_val_def)

lemma failure_of_other:
  "failure_of JNull = TypeError"
  "failure_of (JBool b) = Error ''Request failed''"
  "failure_of (JNum n) = Error ''Request failed''"
  "failure_of (JStr s) = Error ''Request failed''"
  "failure_of (JArr xs) = Error ''Request failed''"
  by (simp_all add: failure_of_def)

text \<open>
  C6, as the claim states it, fails: a 404 whose body is the empty object, with status
  text \<^verbatim>\<open>Not Found\<close>, raises the message \<^verbatim>\<open>Request failed\<close>, not the status text.
\<close>

theorem request_status_text_counterexample:
  "snd (request (always (error_response ''Not Found'' (Json (JObj [])))) sample_api
          ''/workflows/9'' no_options) = Inl (Error ''Request failed'') \<and>
   snd (request (always (error_response ''Not Found'' (Json (JObj [])))) sample_api
          ''/workflows/9'' no_options) \<noteq> Inl (Error ''Not Found'')"
  by (simp add: request_def always_def error_response_def error_envelope_def JSON_parse_def
      failure_of_def)

text \<open>
  C6, amended. A response with a non-success status whose body is not the JSON value
  null makes \<^verbatim>\<open>request\<close> log and raise exactly one \<^verbatim>\<open>Error\<close>, and return no body. The
  envelope is the parsed body, or \<^verbatim>\<open>{detail: statusText}\<close> when the body is not JSON
  text. The message of the error is the string form of the envelope's \<^verbatim>\<open>detail\<close> when
  that is truthy, else of its \<^verbatim>\<open>message\<close> when that is truthy, else the fixed text
  \<^verbatim>\<open>Request failed\<close>. So an unparseable body gives the status text when it is non-empty,
  else \<^verbatim>\<open>Request failed\<close>, and a body that is not an object, having neither field,
  gives \<^verbatim>\<open>Request failed\<close>.
\<close>

theorem request_failure_message:
  assumes "fetch (build_request api endpoint opts) = Response r" and "\<not> resp_ok r"
    and "resp_body r \<noteq> Json JNull"
  shows "let msg =
           (case resp_body r of
              Raw s \<Rightarrow>
                if resp_statusText r \<noteq> [] then resp_statusText r else ''Request failed''
            | Json (JObj kvs) \<Rightarrow>
                if truthy (map_of kvs ''detail'') then ToString_val (map_of kvs ''detail'')
                else if truthy (map_of kvs ''message'') then ToString_val (map_of kvs ''message'')
                else ''Request failed''
            | Json other \<Rightarrow> ''Request failed'')
         in request fetch api endpoint opts =
              ([Fetch (build_request api endpoint opts),
                ConsoleError ''API Request failed:'' (Error msg)],
               Inl (Error msg))"
proof -
  have raised: "failure_of (error_envelope r) =
      Error (case resp_body r of
               Raw s \<Rightarrow>
                 if resp_statusText r \<noteq> [] then resp_statusText r else ''Request failed''
             | Json (JObj kvs) \<Rightarrow>
                 if truthy (map_of kvs ''detail'') then ToString_val (map_of kvs ''detail'')
                 else if truthy (map_of kvs ''message'') then ToString_val (map_of kvs ''message'')
                 else ''Request failed''
             | Json other \<Rightarrow> ''Request failed'')"
  proof (cases "resp_body r")
    case (Raw s)
    then show ?thesis
      by (simp add: error_envelope_def JSON_parse_def failure_of_status_text)
  next
    case (Json v)
    with assms(3) have "v \<noteq> JNull"
      by simp
    with Json show ?thesis
      by (cases v)
        (simp_all add: error_envelope_def JSON_parse_def failure_of_object failure_of_other)
  qed
  show ?thesis
    unfolding Let_def raised [symmetric]
    using assms(1,2) by (rule request_not_ok)
qed

theorem request_failure_message_witness:
  "always unprocessable (build_request sample_api ''/workflows'' no_options) =
     Response unprocessable \<and>
   \<not> resp_ok unprocessable \<and>
   resp_body unprocessable \<noteq> Json JNull \<and>
   request (always unprocessable) sample_api ''/workflows'' no_options =
     ([Fetch (build_request sample_api ''/workflows'' no_options),
       ConsoleError ''API Request failed:'' (Error ''name is required'')],
      Inl (Error ''name is required''))"
proof -
  have answered: "always unprocessable (build_request sample_api ''/workflows'' no_options) =
      Response unprocessable"
    by (simp add: always_def)
  have failed: "\<not> resp_ok unprocessable"
    by (simp add: unprocessable_def error_response_def)
  have body: "resp_body unprocessable \<noteq> Json JNull"
    by (simp add: unprocessable_def error_response_def)
  show ?thesis
    using request_failure_message [where fetch = "always unprocessable" and api = sample_api
        and endpoint = "''/workflows''" and opts = no_options and r = unprocessable,
        OF answered failed body] answered failed body
    by (simp add: unprocessable_def error_response_def ToString_val_def Let_def)
qed

section \<open>Facts about effect lists\<close>

lemma requests_append: "requests (xs @ ys) = requests xs @ requests ys"
  by (induction xs rule: requests.induct) simp_all

lemma started_append: "started (xs @ ys) = started xs @ started ys"
  by (induction xs rule: started.induct) simp_all

lemma toasts_append: "toasts (xs @ ys) = toasts xs @ toasts ys"
  by (induction xs rule: toasts.induct) simp_all

lemma request_starts_nothing: "started (fst (request fetch api endpoint opts)) = []"
  by (simp add: request_def Let_def split: fetch_result.split sum.split)

lemma request_shows_no_toast: "toasts (fst (request fetch api endpoint opts)) = []"
  by (simp add: request_def Let_def split: fetch_result.split sum.split)

section \<open>Facts about the list caches\<close>

lemma load_list_failed:
  assumes "isl (snd fetched)"
  shows "load_list fetched key container label msg commit app =
           (app, fst fetched @ [ConsoleError label (projl (snd fetched)), Toast (Plain msg) ''error''])"
proof -
  obtain es res where fetched: "fetched = (es, res)"
    by (cases fetched)
  with assms obtain e where "res = Inl e"
    by (cases res) simp_all
  with fetched show ?thesis
    by (simp add: load_list_def)
qed

lemma load_list_replaces:
  assumes "fetched = (es, Inr (JObj kvs))"
  shows "load_list fetched key container label msg commit app =
           (commit (or_else (map_of kvs key) (JArr [])), es @ [Render container])"
  using assms by (simp add: load_list_def)

lemma Promise_all2_failed:
  assumes "isl (snd p) \<or> isl (snd q)"
  shows "isl (snd (Promise_all2 p q))"
  using assms by (cases p; cases q) (auto simp: Promise_all2_def split: sum.split)

lemma Promise_all2_effects: "fst (Promise_all2 p q) = fst p @ fst q"
  by (cases p; cases q) (simp add: Promise_all2_def)

lemma loadDashboard_failed:
  assumes "isl (snd (getWorkflows fetch api)) \<or> isl (snd (getRuns fetch api 10))"
  shows "fst (loadDashboard fetch api app) = app"
proof -
  obtain es res where joined:
    "Promise_all2 (getWorkflows fetch api) (getRuns fetch api 10) = (es, res)"
    by (cases "Promise_all2 (getWorkflows fetch api) (getRuns fetch api 10)")
  have "isl res"
    using Promise_all2_failed [OF assms] joined by simp
  then obtain e where "res = Inl e"
    by (cases res) simp_all
  with joined show ?thesis
    by (simp add: loadDashboard_def)
qed

lemma init_catalog_failed:
  assumes "isl (snd (getServices fetch api)) \<or> isl (snd (getConnectors fetch api))"
  shows "fst (init_catalog fetch api wb) = wb"
proof -
  obtain es res where joined:
    "Promise_all2 (getServices fetch api) (getConnectors fetch api) = (es, res)"
    by (cases "Promise_all2 (getServices fetch api) (getConnectors fetch api)")
  have "isl res"
    using Promise_all2_failed [OF assms] joined by simp
  then obtain e where "res = Inl e"
    by (cases res) simp_all
  with joined show ?thesis
    by (simp add: init_catalog_def)
qed

text \<open>
  C5. When the remote load fails (the request is rejected, answered with a non-success
  status, or answered with a body that is not JSON), the controller's state after the
  load is its state before: for the four list loads, for the dashboard load when
  either of its two joined requests fails, and for the catalog load when either of its
  two joined requests fails.
\<close>

theorem failed_load_keeps_cache:
  "(isl (snd (getWorkflows fetch api)) \<longrightarrow> fst (loadWorkflows fetch api app) = app) \<and>
   (isl (snd (getRuns fetch api 100)) \<longrightarrow> fst (loadExecutions fetch api app) = app) \<and>
   (isl (snd (getCredentials fetch api)) \<longrightarrow> fst (loadCredentials fetch api app) = app) \<and>
   (isl (snd (getTemplates fetch api)) \<longrightarrow> fst (loadTemplates fetch api app) = app) \<and>
   (isl (snd (getWorkflows fetch api)) \<or> isl (snd (getRuns fetch api 10)) \<longrightarrow>
      fst (loadDashboard fetch api app) = app) \<and>
   (isl (snd (getServices fetch api)) \<or> isl (snd (getConnectors fetch api)) \<longrightarrow>
      fst (init_catalog fetch api wb) = wb)"
proof (intro conjI impI)
  show "fst (loadWorkflows fetch api app) = app" if "isl (snd (getWorkflows fetch api))"
    using that by (simp add: loadWorkflows_def load_list_failed)
  show "fst (loadExecutions fetch api app) = app" if "isl (snd (getRuns fetch api 100))"
    using that by (simp add: loadExecutions_def load_list_failed)
  show "fst (loadCredentials fetch api app) = app" if "isl (snd (getCredentials fetch api))"
    using that by (simp add: loadCredentials_def load_list_failed)
  show "fst (loadTemplates fetch api app) = app" if "isl (snd (getTemplates fetch api))"
    using that by (simp add: loadTemplates_def load_list_failed)
  show "fst (loadDashboard fetch api app) = app"
    if "isl (snd (getWorkflows fetch api)) \<or> isl (snd (getRuns fetch api 10))"
    using that by (rule loadDashboard_failed)
  show "fst (init_catalog fetch api wb) = wb"
    if "isl (snd (getServices fetch api)) \<or> isl (snd (getConnectors fetch api))"
    using that by (rule init_catalog_failed)
qed

lemma offline_request: "isl (snd (request offline api endpoint opts))"
  by (simp add: request_def offline_def)

theorem failed_load_keeps_cache_witness:
  "isl (snd (getWorkflows offline sample_api)) \<and>
   isl (snd (getRuns offline sample_api 100)) \<and>
   isl (snd (getCredentials offline sample_api)) \<and>
   isl (snd (getTemplates offline sample_api)) \<and>
   isl (snd (getRuns offline sample_api 10)) \<and>
   isl (snd (getServices offline sample_api)) \<and>
   isl (snd (getConnectors offline sample_api)) \<and>
   fst (loadWorkflows offline sample_api stocked_app) = stocked_app \<and>
   fst (loadExecutions offline sample_api stocked_app) = stocked_app \<and>
   fst (loadCredentials offline sample_api stocked_app) = stocked_app \<and>
   fst (loadTemplates offline sample_api stocked_app) = stocked_app \<and>
   fst (loadDashboard offline sample_api stocked_app) = stocked_app \<and>
   fst (init_catalog offline sample_api stocked_builder) = stocked_builder"
proof -
  have down:
    "isl (snd (getWorkflows offline sample_api))"
    "isl (snd (getRuns offline sample_api 100))"
    "isl (snd (getCredentials offline sample_api))"
    "isl (snd (getTemplates offline sample_api))"
    "isl (snd (getRuns offline sample_api 10))"
    "isl (snd (getServices offline sample_api))"
    "isl (snd (getConnectors offline sample_api))"
    by (simp_all add: getWorkflows_def getRuns_def getCredentials_def getTemplates_def
        getServices_def getConnectors_def offline_request)
  show ?thesis
    using failed_load_keeps_cache [of offline sample_api stocked_app stocked_builder] down
    by simp
qed

text \<open>
  The join with one failing constituent: the workflows arrive, the runs do not, and
  neither cache changes.
\<close>

lemma dashboard_partial_failure:
  "\<not> isl (snd (getWorkflows runs_down sample_api)) \<and>
   isl (snd (getRuns runs_down sample_api 10)) \<and>
   fst (loadDashboard runs_down sample_api stocked_app) = stocked_app"
proof -
  have arrived: "\<not> isl (snd (getWorkflows runs_down sample_api))"
    by (simp add: getWorkflows_def request_def runs_down_def build_request_def no_options_def
        sample_api_def ok_response_def JSON_parse_def)
  have failed: "isl (snd (getRuns runs_down sample_api 10))"
    by (simp add: getRuns_def request_def runs_down_def build_request_def no_options_def
        sample_api_def error_response_def)
  from failed have "fst (loadDashboard runs_down sample_api stocked_app) = stocked_app"
    by (intro loadDashboard_failed) simp
  with arrived failed show ?thesis
    by simp
qed

text \<open>
  The join can succeed and the load still stop half way: when the run listing answers
  200 with the body \<^verbatim>\<open>null\<close>, the workflows are assigned before reading
  \<^verbatim>\<open>runsData.runs\<close> raises. No request has failed in this case.
\<close>

lemma dashboard_null_runs_body:
  "\<not> isl (snd (getWorkflows null_runs sample_api)) \<and>
   \<not> isl (snd (getRuns null_runs sample_api 10)) \<and>
   fst (loadDashboard null_runs sample_api stocked_app) =
     stocked_app\<lparr>workflows := JArr [JObj [(''id'', JStr ''w2''), (''status'', JStr ''active'')]]\<rparr>"
  by (simp add: loadDashboard_def Promise_all2_def getWorkflows_def getRuns_def request_def
      null_runs_def build_request_def no_options_def sample_api_def ok_response_def
      JSON_parse_def or_else_def)

text \<open>A successful load replaces the whole cache by the list in the answer.\<close>

lemma loadWorkflows_replaces:
  assumes "getWorkflows fetch api = (es, Inr (JObj kvs))"
  shows "loadWorkflows fetch api app =
           (app\<lparr>workflows := or_else (map_of kvs ''workflows'') (JArr [])\<rparr>,
            es @ [Render ''workflows-list''])"
  using assms by (simp add: loadWorkflows_def load_list_replaces)

section \<open>Facts about saving a draft\<close>

lemma trim_empty: "trim [] = []"
  by (simp add: trim_def)

lemma trim_blank:
  assumes "\<forall>c \<in> set s. is_space c"
  shows "trim s = []"
  using assms by (auto simp: trim_def dest: set_dropWhileD)

lemma save_rejects_blank_name:
  assumes "trim (form_name form) = []"
  shows "saveWorkflow fetch api andRun form wb =
           (wb, [Toast (Plain ''Please enter a workflow name'') ''error''])"
  using assms by (simp add: saveWorkflow_def)

lemma save_rejects_no_steps:
  assumes "trim (form_name form) \<noteq> []" and "currentSteps wb = []"
  shows "saveWorkflow fetch api andRun form wb =
           (wb, [Toast (Plain ''Please add at least one step'') ''error''])"
  using assms by (simp add: saveWorkflow_def)

text \<open>No path of \<^verbatim>\<open>saveWorkflow\<close> assigns to the draft.\<close>

lemma save_keeps_draft: "fst (saveWorkflow fetch api andRun form wb) = wb"
  by (simp add: saveWorkflow_def Let_def split: prod.split option.split)

text \<open>
  C7. A draft whose name is empty or whose step list is empty is rejected by
  \<^verbatim>\<open>saveWorkflow\<close> with one error toast; no request is handed to the transport and the
  draft is as it was.
\<close>

theorem save_rejects_invalid_draft:
  assumes "form_name form = [] \<or> currentSteps wb = []"
  shows "saveWorkflow fetch api andRun form wb =
           (wb, [Toast (Plain (if trim (form_name form) = [] then ''Please enter a workflow name''
                               else ''Please add at least one step'')) ''error'']) \<and>
         requests (snd (saveWorkflow fetch api andRun form wb)) = []"
proof (cases "trim (form_name form) = []")
  case True
  then show ?thesis
    by (simp add: save_rejects_blank_name)
next
  case False
  with assms have "currentSteps wb = []"
    by (auto simp: trim_empty)
  with False show ?thesis
    by (simp add: save_rejects_no_steps)
qed

theorem save_rejects_invalid_draft_witness:
  "form_name (sample_form\<lparr>form_name := []\<rparr>) = [] \<and>
   currentSteps WorkflowBuilder_initial = [] \<and>
   saveWorkflow create_only sample_api True (sample_form\<lparr>form_name := []\<rparr>) one_step_draft =
     (one_step_draft, [Toast (Plain ''Please enter a workflow name'') ''error'']) \<and>
   requests (snd (saveWorkflow create_only sample_api True sample_form WorkflowBuilder_initial)) = []"
proof -
  have unnamed: "form_name (sample_form\<lparr>form_name := []\<rparr>) = [] \<or> currentSteps one_step_draft = []"
    by simp
  have stepless: "form_name sample_form = [] \<or> currentSteps WorkflowBuilder_initial = []"
    by (simp add: WorkflowBuilder_initial_def)
  show ?thesis
    using save_rejects_invalid_draft [OF unnamed, of create_only sample_api True]
      save_rejects_invalid_draft [OF stepless, of create_only sample_api True]
    by (simp add: trim_empty WorkflowBuilder_initial_def)
qed

text \<open>
  What a save followed by a failing execute shows, in general: the success toast of the
  save, then the failure toast of the handler that the save and the execute share.
\<close>

lemma save_attempt_execute_fails:
  assumes "currentWorkflow wb = JNull"
    and "createWorkflow fetch api workflow = (es1, Inr (JObj kvs))"
    and "map_of kvs ''workflow'' = Some (JObj wkvs)"
    and "executeWorkflow fetch api (map_of wkvs ''id'') = (es2, Inl e)"
  shows "save_attempt fetch api True workflow wb =
           (es1 @ [Toast (Plain ''Workflow created successfully'') ''success''] @ es2, Some e)"
  using assms by (simp add: save_attempt_def)

lemma save_attempt_execute_succeeds:
  assumes "currentWorkflow wb = JNull"
    and "createWorkflow fetch api workflow = (es1, Inr (JObj kvs))"
    and "map_of kvs ''workflow'' = Some (JObj wkvs)"
    and "executeWorkflow fetch api (map_of wkvs ''id'') = (es2, Inr x)"
  shows "save_attempt fetch api True workflow wb =
           (es1 @ [Toast (Plain ''Workflow created successfully'') ''success''] @ es2 @
            [Toast (Plain ''Workflow execution started'') ''success'', Start LoadWorkflows,
             ActivateView ''workflows'', Start LoadWorkflows], None)"
  using assms by (simp add: save_attempt_def showView_def)

text \<open>
  C4. Saving a new one-step draft with \<^verbatim>\<open>andRun\<close> on a server that creates the
  workflow and then fails to execute it: two requests go out; the toasts are the
  success of the creation followed by \<^verbatim>\<open>Failed to save workflow:\<close> with the message of
  the execute error; the reload of the workflow list and the change of view do not
  happen.
\<close>

theorem save_reports_execute_failure_as_save_failure:
  "map req_url (requests (snd (saveWorkflow create_only sample_api True sample_form one_step_draft))) =
     [''https://flowforge.test/workflows'', ''https://flowforge.test/workflows/7/execute''] \<and>
   toasts (snd (saveWorkflow create_only sample_api True sample_form one_step_draft)) =
     [(Plain ''Workflow created successfully'', ''success''),
      (WithMessage ''Failed to save workflow: '' (Error ''engine unavailable''), ''error'')] \<and>
   started (snd (saveWorkflow create_only sample_api True sample_form one_step_draft)) = []"
  by (simp add: saveWorkflow_def save_attempt_def createWorkflow_def executeWorkflow_def
      request_def build_request_def with_body_def create_only_def sample_api_def sample_form_def
      one_step_draft_def WorkflowBuilder_initial_def sample_step_def ok_response_def
      error_response_def error_envelope_def failure_of_def JSON_parse_def JSON_stringify_def
      ToString_val_def show_int_def decimal_small digit_def trim_def is_space_def spread_def
      Let_def)

text \<open>The same failing execute, started from the workflow list, is reported as such.\<close>

lemma runWorkflow_reports_execute_failure:
  "toasts (snd (runWorkflow create_only sample_api ''7'' stocked_app)) =
     [(WithMessage ''Failed to execute workflow: '' (Error ''engine unavailable''), ''error'')]"
  by (simp add: runWorkflow_def executeWorkflow_def request_def build_request_def with_body_def
      create_only_def sample_api_def error_response_def error_envelope_def failure_of_def
      JSON_parse_def JSON_stringify_def ToString_val_def spread_def Let_def)

section \<open>Facts about deleting\<close>

lemma delete_unconfirmed:
  "deleteWorkflow False fetch api ident app =
     (app, [Confirm ''Are you sure you want to delete this workflow?''])"
  "deleteCredential False fetch api ident app =
     (app, [Confirm ''Are you sure you want to delete this credential?''])"
  by (simp_all add: deleteWorkflow_def deleteCredential_def)

lemma delete_keeps_cache:
  "fst (deleteWorkflow confirmed fetch api ident app) = app"
  "fst (deleteCredential confirmed fetch api ident app) = app"
  by (simp_all add: deleteWorkflow_def deleteCredential_def split: prod.split sum.split)

lemma deleteWorkflow_starts:
  assumes "\<not> isl (snd (api_deleteWorkflow fetch api (Some (JStr ident))))"
  shows "started (snd (deleteWorkflow True fetch api ident app)) = [LoadWorkflows, LoadDashboard]"
proof -
  obtain es res where called: "api_deleteWorkflow fetch api (Some (JStr ident)) = (es, res)"
    by (cases "api_deleteWorkflow fetch api (Some (JStr ident))")
  with assms obtain x where res: "res = Inr x"
    by (cases res) simp_all
  have "started (fst (api_deleteWorkflow fetch api (Some (JStr ident)))) = []"
    by (simp only: api_deleteWorkflow_def request_starts_nothing)
  with called have "started es = []"
    by simp
  with called res show ?thesis
    by (simp add: deleteWorkflow_def started_append)
qed

lemma deleteCredential_starts:
  assumes "\<not> isl (snd (api_deleteCredential fetch api (Some (JStr ident))))"
  shows "started (snd (deleteCredential True fetch api ident app)) = [LoadCredentials]"
proof -
  obtain es res where called: "api_deleteCredential fetch api (Some (JStr ident)) = (es, res)"
    by (cases "api_deleteCredential fetch api (Some (JStr ident))")
  with assms obtain x where res: "res = Inr x"
    by (cases res) simp_all
  have "started (fst (api_deleteCredential fetch api (Some (JStr ident)))) = []"
    by (simp only: api_deleteCredential_def request_starts_nothing)
  with called have "started es = []"
    by simp
  with called res show ?thesis
    by (simp add: deleteCredential_def started_append)
qed

text \<open>
  C9, as the claim states it, fails for credentials: a confirmed, successful delete of
  a credential starts the reload of the credential list and nothing else.
\<close>

theorem deleteCredential_dashboard_counterexample:
  "started (snd (deleteCredential True (always (ok_response (JObj []))) sample_api ''c1''
      stocked_app)) = [LoadCredentials] \<and>
   LoadDashboard \<notin> set (started (snd (deleteCredential True (always (ok_response (JObj [])))
      sample_api ''c1'' stocked_app)))"
  by (simp add: deleteCredential_def api_deleteCredential_def request_def always_def
      ok_response_def JSON_parse_def)

text \<open>
  C9, amended. Without confirmation neither delete hands a request to the transport,
  and the caches are unchanged. With confirmation and a successful remote delete, the
  workflow delete starts the reload of the workflow list and of the dashboard; the
  credential delete starts the reload of the credential list.
\<close>

theorem delete_confirmation_and_reload:
  "(\<not> confirmed \<longrightarrow>
      requests (snd (deleteWorkflow confirmed fetch api ident app)) = [] \<and>
      fst (deleteWorkflow confirmed fetch api ident app) = app \<and>
      requests (snd (deleteCredential confirmed fetch api ident app)) = [] \<and>
      fst (deleteCredential confirmed fetch api ident app) = app) \<and>
   (confirmed \<and> \<not> isl (snd (api_deleteWorkflow fetch api (Some (JStr ident)))) \<longrightarrow>
      started (snd (deleteWorkflow confirmed fetch api ident app)) =
        [LoadWorkflows, LoadDashboard]) \<and>
   (confirmed \<and> \<not> isl (snd (api_deleteCredential fetch api (Some (JStr ident)))) \<longrightarrow>
      started (snd (deleteCredential confirmed fetch api ident app)) = [LoadCredentials])"
  by (auto simp: delete_unconfirmed delete_keeps_cache deleteWorkflow_starts
      deleteCredential_starts)

theorem delete_confirmation_and_reload_witness:
  "requests (snd (deleteCredential False offline sample_api ''c1'' stocked_app)) = [] \<and>
   fst (deleteCredential False offline sample_api ''c1'' stocked_app) = stocked_app \<and>
   \<not> isl (snd (api_deleteWorkflow (always (ok_response (JObj []))) sample_api (Some (JStr ''w1'')))) \<and>
   \<not> isl (snd (api_deleteCredential (always (ok_response (JObj []))) sample_api (Some (JStr ''c1'')))) \<and>
   started (snd (deleteWorkflow True (always (ok_response (JObj []))) sample_api ''w1'' stocked_app)) =
     [LoadWorkflows, LoadDashboard] \<and>
   started (snd (deleteCredential True (always (ok_response (JObj []))) sample_api ''c1''
     stocked_app)) = [LoadCredentials]"
proof -
  have deleted:
    "\<not> isl (snd (api_deleteWorkflow (always (ok_response (JObj []))) sample_api (Some (JStr ''w1''))))"
    "\<not> isl (snd (api_deleteCredential (always (ok_response (JObj []))) sample_api (Some (JStr ''c1''))))"
    by (simp_all add: api_deleteWorkflow_def api_deleteCredential_def request_def always_def
        ok_response_def JSON_parse_def)
  show ?thesis
    using delete_confirmation_and_reload [of False offline sample_api "''c1''" stocked_app]
      delete_confirmation_and_reload [of True "always (ok_response (JObj []))" sample_api
        "''w1''" stocked_app]
      delete_confirmation_and_reload [of True "always (ok_response (JObj []))" sample_api
        "''c1''" stocked_app]
      deleted
    by simp
qed

section \<open>Facts about the number arithmetic\<close>

text \<open>
  \<open>to_double\<close> is rounding to the nearest double: the result is a 53-bit significand
  times the unit in the last place of its argument, at most half a unit away from the
  argument, and of two candidates at that distance the one with the even significand.
\<close>

lemma bitlength_nonneg: "0 \<le> bitlength k"
proof (induction k rule: bitlength.induct)
  case (1 k)
  then show ?case
    by (subst bitlength.simps) simp
qed

lemma bitlength_pos: "0 < k \<Longrightarrow> 1 \<le> bitlength k"
  using bitlength_nonneg [of "k div 2"] by (subst bitlength.simps) simp

lemma bitlength_bounds:
  "0 < k \<Longrightarrow> 2 ^ nat (bitlength k - 1) \<le> k \<and> k < 2 ^ nat (bitlength k)"
proof (induction k rule: bitlength.induct)
  case (1 k)
  show ?case
  proof (cases "k = 1")
    case True
    then show ?thesis
      by (simp add: bitlength.simps [of 1] bitlength.simps [of 0])
  next
    case False
    with "1.prems" have half: "0 < k div 2" and pos: "\<not> k \<le> 0"
      by simp_all
    from "1.IH" [OF pos half]
    have lo: "2 ^ nat (bitlength (k div 2) - 1) \<le> k div 2"
      and hi: "k div 2 < 2 ^ nat (bitlength (k div 2))"
      by simp_all
    have len: "bitlength k = 1 + bitlength (k div 2)"
      using pos by (subst bitlength.simps) simp
    have ge1: "1 \<le> bitlength (k div 2)"
      using half by (rule bitlength_pos)
    then obtain b where b: "nat (bitlength (k div 2)) = Suc b"
      by (metis Suc_nat_eq_nat_zadd1 add.commute diff_add_cancel diff_ge_0_iff_ge)
    then have b': "nat (bitlength (k div 2) - 1) = b"
      by linarith
    have "nat (bitlength k - 1) = Suc b" "nat (bitlength k) = Suc (Suc b)"
      using len b ge1 by linarith+
    moreover have "2 * 2 ^ b \<le> k"
      using lo b' by simp
    moreover have "k < 2 * (2 * 2 ^ b)"
      using hi b by simp
    ultimately show ?thesis
      by simp
  qed
qed

lemma pow2_powi: "pow2 k = 2 powi k"
  by (simp add: pow2_def power_int_def field_simps)

lemma pow2_pos: "0 < pow2 k"
  by (simp add: pow2_powi)

lemma bitlength_rat_bounds:
  assumes "0 < k"
  shows "pow2 (bitlength k - 1) \<le> of_int k" and "(of_int k :: rat) < pow2 (bitlength k)"
proof -
  from bitlength_bounds [OF assms]
  have lo: "2 ^ nat (bitlength k - 1) \<le> k" and hi: "k < 2 ^ nat (bitlength k)"
    by simp_all
  have "(of_int (2 ^ nat (bitlength k - 1)) :: rat) \<le> of_int k"
    using lo by (simp only: of_int_le_iff)
  then show "pow2 (bitlength k - 1) \<le> of_int k"
    using bitlength_pos [OF assms] by (simp add: pow2_def)
  have "(of_int k :: rat) < of_int (2 ^ nat (bitlength k))"
    using hi by (simp only: of_int_less_iff)
  then show "(of_int k :: rat) < pow2 (bitlength k)"
    using bitlength_nonneg [of k] by (simp add: pow2_def)
qed

lemma ilog2_bounds:
  assumes "0 < x"
  shows "pow2 (ilog2 x) \<le> x \<and> x < pow2 (ilog2 x + 1)"
proof -
  obtain p q where pq: "quotient_of x = (p, q)"
    by (cases "quotient_of x")
  then have q: "0 < q" and x: "x = of_int p / of_int q"
    by (simp_all add: quotient_of_denom_pos quotient_of_div)
  with assms have p: "0 < p"
    by (simp add: zero_less_divide_iff)
  define d where "d = bitlength p - bitlength q"
  have lower: "pow2 (d - 1) < x"
  proof -
    have "pow2 (bitlength p - 1) * of_int q < of_int p * pow2 (bitlength q)"
      using bitlength_rat_bounds(1) [OF p] bitlength_rat_bounds(2) [OF q] q
      by (intro mult_le_less_imp_less) (simp_all add: pow2_pos)
    then have "pow2 (bitlength p - 1) / pow2 (bitlength q) < of_int p / of_int q"
      using q pow2_pos [of "bitlength q"] by (simp add: field_simps)
    then show ?thesis
      by (simp add: d_def x pow2_powi power_int_diff)
  qed
  have upper: "x < pow2 (d + 1)"
  proof -
    have "of_int p * pow2 (bitlength q - 1) < pow2 (bitlength p) * of_int q"
      using bitlength_rat_bounds(2) [OF p] bitlength_rat_bounds(1) [OF q] p
      by (intro mult_less_le_imp_less) (simp_all add: pow2_pos)
    then have "of_int p / of_int q < pow2 (bitlength p) / pow2 (bitlength q - 1)"
      using q pow2_pos [of "bitlength q - 1"] by (simp add: field_simps)
    also have "pow2 (bitlength p) / pow2 (bitlength q - 1) = pow2 (d + 1)"
      by (simp add: d_def pow2_powi power_int_diff power_int_add)
    finally show ?thesis
      by (simp add: x)
  qed
  show ?thesis
  proof (cases "pow2 d \<le> x")
    case True
    then have "ilog2 x = d"
      by (simp add: ilog2_def pq d_def)
    with True upper show ?thesis by simp
  next
    case False
    then have "ilog2 x = d - 1"
      by (simp add: ilog2_def pq d_def)
    with False lower show ?thesis by simp
  qed
qed

lemma round_half_even_floor:
  "\<lfloor>m\<rfloor> \<le> round_half_even m \<and> round_half_even m \<le> \<lfloor>m\<rfloor> + 1"
  by (simp add: round_half_even_def Let_def)

lemma round_half_even_nearest: "\<bar>of_int (round_half_even m) - m\<bar> \<le> 1 / 2"
proof -
  have "of_int \<lfloor>m\<rfloor> \<le> m" "m < of_int \<lfloor>m\<rfloor> + 1"
    by linarith+
  then show ?thesis
    by (auto simp: round_half_even_def Let_def abs_le_iff)
qed

lemma round_half_even_tie:
  assumes "m - of_int \<lfloor>m\<rfloor> = 1 / 2"
  shows "even (round_half_even m)"
  using assms by (simp add: round_half_even_def Let_def)

lemma to_double_positive:
  assumes "0 < x"
  shows "to_double x = of_int (round_half_even (x / pow2 (ilog2 x - 52))) * pow2 (ilog2 x - 52)"
  using assms by (simp add: to_double_def Let_def)

lemma to_double_close:
  assumes "0 < x"
  shows "\<bar>to_double x - x\<bar> \<le> pow2 (ilog2 x - 53)"
proof -
  define u where "u = pow2 (ilog2 x - 52)"
  have u: "0 < u"
    by (simp add: u_def pow2_pos)
  have half: "pow2 (ilog2 x - 53) = u / 2"
    by (simp add: u_def pow2_powi power_int_diff)
  have "to_double x - x = (of_int (round_half_even (x / u)) - x / u) * u"
    using u by (simp add: to_double_positive [OF assms] u_def [symmetric] field_simps)
  then have "\<bar>to_double x - x\<bar> = \<bar>of_int (round_half_even (x / u)) - x / u\<bar> * u"
    using u by (simp add: abs_mult)
  also have "\<dots> \<le> 1 / 2 * u"
    using round_half_even_nearest [of "x / u"] u by (intro mult_right_mono) simp_all
  finally show ?thesis
    by (simp add: half)
qed

lemma to_double_significand:
  assumes "0 < x"
  shows "2 ^ 52 \<le> round_half_even (x / pow2 (ilog2 x - 52)) \<and>
         round_half_even (x / pow2 (ilog2 x - 52)) \<le> 2 ^ 53"
proof -
  define u where "u = pow2 (ilog2 x - 52)"
  have u: "0 < u"
    by (simp add: u_def pow2_pos)
  have lo: "pow2 (ilog2 x) = 2 ^ 52 * u" and hi: "pow2 (ilog2 x + 1) = 2 ^ 53 * u"
    by (simp_all add: u_def pow2_powi power_int_diff power_int_add)
  from ilog2_bounds [OF assms] have "2 ^ 52 * u \<le> x" "x < 2 ^ 53 * u"
    by (simp_all add: lo hi)
  then have "2 ^ 52 \<le> x / u" "x / u < 2 ^ 53"
    using u by (simp_all add: field_simps)
  then have "(2 ^ 52 :: int) \<le> \<lfloor>x / u\<rfloor>" "\<lfloor>x / u\<rfloor> < (2 ^ 53 :: int)"
    by (simp_all add: le_floor_iff floor_less_iff)
  with round_half_even_floor [of "x / u"]
  have "2 ^ 52 \<le> round_half_even (x / u) \<and> round_half_even (x / u) \<le> 2 ^ 53"
    by linarith
  then show ?thesis
    by (simp only: u_def)
qed

text \<open>Two doubles as the source computes them: one tenth, and 57 / 200 * 100.\<close>

lemma to_double_tenth: "js_div 1 10 = 3602879701896397 / 2 ^ 55"
  by code_simp

lemma js_57_of_200: "js_mul (js_div 57 200) 100 = 57 / 2 - 1 / 2 ^ 48"
  by code_simp

section \<open>Facts about the dashboard statistics\<close>

lemma count_status_le:
  "count_status xs s = Inr n \<Longrightarrow> n \<le> length xs"
proof (induction xs arbitrary: n)
  case Nil
  then show ?case by simp
next
  case (Cons x xs)
  from Cons.prems obtain v m where
    "get_prop x ''status'' = Inr v" and rest: "count_status xs s = Inr m"
    and n: "n = (if v = Some (JStr s) then Suc m else m)"
    by (auto split: sum.splits)
  from Cons.IH [OF rest] n show ?case
    by simp
qed

text \<open>
  The double arithmetic of the success rate agrees with exact rounding on every sample
  of at most ten runs; the cases are computed one sample size at a time.
\<close>

lemma successRate_upto_3:
  "\<forall>n \<in> set [1..<4]. \<forall>k \<in> set [0..<n + 1].
     successRate k n = round (of_nat k / of_nat n * 100 :: rat)"
  by code_simp

lemma successRate_4_5:
  "\<forall>n \<in> set [4..<6]. \<forall>k \<in> set [0..<n + 1].
     successRate k n = round (of_nat k / of_nat n * 100 :: rat)"
  by code_simp

lemma successRate_6_7:
  "\<forall>n \<in> set [6..<8]. \<forall>k \<in> set [0..<n + 1].
     successRate k n = round (of_nat k / of_nat n * 100 :: rat)"
  by code_simp

lemma successRate_8:
  "\<forall>n \<in> set [8..<9]. \<forall>k \<in> set [0..<n + 1].
     successRate k n = round (of_nat k / of_nat n * 100 :: rat)"
  by code_simp

lemma successRate_9:
  "\<forall>n \<in> set [9..<10]. \<forall>k \<in> set [0..<n + 1].
     successRate k n = round (of_nat k / of_nat n * 100 :: rat)"
  by code_simp

lemma successRate_10:
  "\<forall>n \<in> set [10..<11]. \<forall>k \<in> set [0..<n + 1].
     successRate k n = round (of_nat k / of_nat n * 100 :: rat)"
  by code_simp

lemma successRate_exact:
  assumes "n \<le> 10" and "k \<le> n"
  shows "successRate k n = (if n = 0 then 0 else round (of_nat k / of_nat n * 100 :: rat))"
proof (cases "n = 0")
  case True
  then show ?thesis
    by (simp add: successRate_def)
next
  case False
  with assms(1) consider "n \<in> set [1..<4]" | "n \<in> set [4..<6]" | "n \<in> set [6..<8]"
    | "n \<in> set [8..<9]" | "n \<in> set [9..<10]" | "n \<in> set [10..<11]"
    by (simp only: set_upt atLeastLessThan_iff) linarith
  moreover have "k \<in> set [0..<n + 1]"
    using assms(2) by auto
  ultimately have "successRate k n = round (of_nat k / of_nat n * 100 :: rat)"
    using successRate_upto_3 successRate_4_5 successRate_6_7 successRate_8 successRate_9
      successRate_10
    by (metis (no_types, lifting))
  with False show ?thesis
    by simp
qed

lemma successRate_7_of_10: "successRate 7 10 = 70"
  by code_simp

text \<open>
  On larger samples the doubles can fall below a tie that exact arithmetic reaches:
  57 successes in 200 runs are 28.5 percent, and the rate shown is 28.
\<close>

lemma successRate_57_of_200:
  "successRate 57 200 = 28 \<and> round (of_nat 57 / of_nat 200 * 100 :: rat) = 29"
  by code_simp

lemma count_status_has_status:
  assumes "\<forall>x \<in> set xs. x \<noteq> JNull"
  shows "count_status xs s = Inr (length (filter (has_status s) xs))"
  using assms
proof (induction xs)
  case Nil
  then show ?case by simp
next
  case (Cons x xs)
  then have "x \<noteq> JNull"
    by simp
  then obtain v where "get_prop x ''status'' = Inr v"
    by (cases x) simp_all
  with Cons show ?case
    by (simp add: has_status_def)
qed

lemma filter_has_status_le: "length (filter (has_status s) xs) \<le> length xs"
  by (rule length_filter_le)

text \<open>
  C10. The dashboard load asks for the runs with \<^verbatim>\<open>limit=10\<close>. When both answers
  arrive, carrying a list of workflows and a list of at most ten runs (no element
  null), the two caches are replaced by these lists and the success rate written to
  the page is the number of runs with status \<^verbatim>\<open>success\<close>, divided by the number of runs,
  times 100, rounded to the nearest integer; it is 0 for the empty list.
\<close>

theorem dashboard_success_rate:
  assumes "fetch (build_request api ''/workflows'' no_options) = Response r1"
    and "resp_ok r1" and "resp_body r1 = Json (JObj kvs1)"
    and "map_of kvs1 ''workflows'' = Some (JArr ws)" and "\<forall>x \<in> set ws. x \<noteq> JNull"
    and "fetch (build_request api ''/runs?limit=10'' no_options) = Response r2"
    and "resp_ok r2" and "resp_body r2 = Json (JObj kvs2)"
    and "map_of kvs2 ''runs'' = Some (JArr rs)" and "\<forall>x \<in> set rs. x \<noteq> JNull"
    and "length rs \<le> 10"
  shows "loadDashboard fetch api app =
    (app\<lparr>workflows := JArr ws, executions := JArr rs\<rparr>,
     [Fetch (build_request api ''/workflows'' no_options),
      Fetch (build_request api ''/runs?limit=10'' no_options),
      SetText ''total-workflows'' (decimal (length ws)),
      SetText ''active-workflows'' (decimal (length (filter (has_status ''active'') ws))),
      SetText ''total-executions'' (decimal (length rs)),
      SetText ''success-rate''
        (show_int (if rs = [] then 0
                   else round (of_nat (length (filter (has_status ''success'') rs)) /
                               of_nat (length rs) * 100 :: rat)) @ ''%''),
      Render ''recent-workflows''])"
proof -
  have fetched1: "getWorkflows fetch api =
      ([Fetch (build_request api ''/workflows'' no_options)], Inr (JObj kvs1))"
    unfolding getWorkflows_def using assms(1-3) by (rule request_resolves)
  have fetched2: "getRuns fetch api 10 =
      ([Fetch (build_request api ''/runs?limit=10'' no_options)], Inr (JObj kvs2))"
    unfolding getRuns_def decimal_10 using assms(6-8) by (simp add: request_resolves)
  have joined: "Promise_all2 (getWorkflows fetch api) (getRuns fetch api 10) =
      ([Fetch (build_request api ''/workflows'' no_options),
        Fetch (build_request api ''/runs?limit=10'' no_options)],
       Inr (JObj kvs1, JObj kvs2))"
    by (simp add: fetched1 fetched2 Promise_all2_def)
  have rate: "successRate (length (filter (has_status ''success'') rs)) (length rs) =
      (if rs = [] then 0
       else round (of_nat (length (filter (has_status ''success'') rs)) /
                   of_nat (length rs) * 100 :: rat))"
    using successRate_exact [OF assms(11) filter_has_status_le [of "''success''" rs]] by simp
  have stats: "dashboard_stats (JArr ws) (JArr rs) =
      Inr [SetText ''total-workflows'' (decimal (length ws)),
           SetText ''active-workflows'' (decimal (length (filter (has_status ''active'') ws))),
           SetText ''total-executions'' (decimal (length rs)),
           SetText ''success-rate''
             (show_int (if rs = [] then 0
                        else round (of_nat (length (filter (has_status ''success'') rs)) /
                                    of_nat (length rs) * 100 :: rat)) @ ''%'')]"
    using assms(5,10)
    by (simp only: dashboard_stats_def filter_status_length.simps count_status_has_status
        sum.case array_length.simps rate)
  show ?thesis
    using assms(4,9)
    by (simp add: loadDashboard_def joined or_else_def stats)
qed

theorem dashboard_success_rate_witness:
  "dashboard_server (build_request sample_api ''/runs?limit=10'' no_options) =
     Response (ok_response (JObj [(''runs'', JArr ten_runs)])) \<and>
   length ten_runs = 10 \<and>
   length (filter (has_status ''success'') ten_runs) = 7 \<and>
   executions (fst (loadDashboard dashboard_server sample_api App_initial)) = JArr ten_runs \<and>
   SetText ''success-rate'' ''70%'' \<in> set (snd (loadDashboard dashboard_server sample_api App_initial))"
proof -
  let ?ws = "[JObj [(''id'', JStr ''w1''), (''status'', JStr ''active'')]]"
  have listed: "dashboard_server (build_request sample_api ''/workflows'' no_options) =
      Response (ok_response (JObj [(''workflows'', JArr ?ws)]))"
    by (simp add: dashboard_server_def build_request_def sample_api_def)
  have ran: "dashboard_server (build_request sample_api ''/runs?limit=10'' no_options) =
      Response (ok_response (JObj [(''runs'', JArr ten_runs)]))"
    by (simp add: dashboard_server_def build_request_def sample_api_def)
  have sizes: "length ten_runs = 10" "length (filter (has_status ''success'') ten_runs) = 7"
    "ten_runs \<noteq> []"
    by (simp_all add: ten_runs_def has_status_def run_with_status_def)
  have sound: "\<forall>x \<in> set ?ws. x \<noteq> JNull" "\<forall>x \<in> set ten_runs. x \<noteq> JNull"
    by (auto simp: ten_runs_def run_with_status_def)
  have percent: "show_int 70 @ ''%'' = ''70%''"
    by (simp add: show_int_def decimal_small decimal_large digit_def)
  show ?thesis
    using dashboard_success_rate [where fetch = dashboard_server and api = sample_api
        and app = App_initial and ?r1.0 = "ok_response (JObj [(''workflows'', JArr ?ws)])"
        and ?r2.0 = "ok_response (JObj [(''runs'', JArr ten_runs)])"
        and ?kvs1.0 = "[(''workflows'', JArr ?ws)]" and ?kvs2.0 = "[(''runs'', JArr ten_runs)]"
        and ws = ?ws and rs = ten_runs, OF listed _ _ _ sound(1) ran _ _ _ sound(2)]
      ran sizes
    by (simp add: ok_response_def percent)
qed

end
